theory Spec2Isabelle
  imports Main "HOL-Library.Word"
begin

section \<open>Object model\<close>

text \<open>
  The operator works on Kubernetes objects.  Go structs are records, pointers to
  optional sub-structs are \<open>option\<close>s, \<open>int32\<close>/\<open>int64\<close> are machine words,
  \<open>map[string]string\<close> is an association list and \<open>interface{}\<close> JSON content is the
  datatype \<open>json\<close>.  Field names are the Go field names; where two structs share a
  field name the record name qualifies it (\<open>OwnerReference.Name\<close>).
\<close>

datatype json =
    JNull
  | JBool bool
  | JNumber int
  | JString string
  | JArray "json list"
  | JObject "(string \<times> json) list"

text \<open>\<open>schema.GroupVersionKind\<close> and its method \<open>Empty\<close>.\<close>

record GroupVersionKind =
  Group :: string
  Version :: string
  Kind :: string

definition Empty :: "GroupVersionKind \<Rightarrow> bool" where
  "Empty gvk = (length (GroupVersionKind.Group gvk) = 0 \<and> length (Version gvk) = 0
       \<and> length (GroupVersionKind.Kind gvk) = 0)"

text \<open>\<open>types.NamespacedName\<close> (also \<open>client.ObjectKey\<close> and the key of a
  \<open>reconcile.Request\<close>): namespace first, then name.\<close>

type_synonym NamespacedName = "string \<times> string"

record OwnerReference =
  APIVersion :: string
  Kind :: string
  Name :: string
  UID :: string
  Controller :: bool
  BlockOwnerDeletion :: bool

record LocalPolicyTargetReference =
  Group :: string
  Kind :: string
  Name :: string

record WAFPolicyRuleSetRef =
  Name :: string

record WAFPolicySpec =
  TargetRef :: LocalPolicyTargetReference
  RuleSet :: WAFPolicyRuleSetRef
  FailurePolicy :: string

record ObjectReference =
  APIVersion :: string
  Kind :: string
  Name :: string

record RuleSetCacheServerConfig =
  PollIntervalSeconds :: "32 word"

record LabelSelector =
  MatchLabels :: "(string \<times> string) list"

record IstioWasmConfig =
  Image :: string
  Mode :: string
  WorkloadSelector :: "LabelSelector option"
  RuleSetCacheServer :: "RuleSetCacheServerConfig option"

record IstioDriverConfig =
  Wasm :: "IstioWasmConfig option"

record DriverConfig =
  Istio :: "IstioDriverConfig option"

record EngineSpec =
  RuleSet :: ObjectReference
  FailurePolicy :: string
  Driver :: DriverConfig

datatype ConditionStatus = ConditionTrue | ConditionFalse | ConditionUnknown

record Condition =
  Type :: string
  Status :: ConditionStatus
  ObservedGeneration :: "64 word"
  LastTransitionTime :: nat
  Reason :: string
  Message :: string

text \<open>\<open>metav1.ObjectMeta\<close>, embedded in every object.  The resource version is the
  store's opaque version token, modelled as a number the store increases on each write;
  a nil deletion timestamp is \<open>None\<close>.\<close>

record ObjectMeta =
  Name :: string
  Namespace :: string
  UID :: string
  ResourceVersion :: nat
  Generation :: "64 word"
  DeletionTimestamp :: "nat option"
  Finalizers :: "string list"
  OwnerReferences :: "OwnerReference list"

record WAFPolicy = ObjectMeta +
  Spec :: WAFPolicySpec
  Conditions :: "Condition list"

record Engine = ObjectMeta +
  ESpec :: EngineSpec

text \<open>\<open>unstructured.Unstructured\<close>: the metadata accessors (\<open>GetName\<close>,
  \<open>GetNamespace\<close>, \<open>GetResourceVersion\<close>, \<open>GroupVersionKind\<close>) read the record
  fields; \<open>Object\<close> holds the remaining top-level content such as \<open>spec\<close>.\<close>

record Unstructured = ObjectMeta +
  gvk :: GroupVersionKind
  Object :: "(string \<times> json) list"

definition ObjectKeyFromObject :: "'a ObjectMeta_scheme \<Rightarrow> NamespacedName" where
  "ObjectKeyFromObject obj = (Namespace obj, ObjectMeta.Name obj)"

section \<open>Errors\<close>

text \<open>Go \<open>error\<close> values.  The first four are API status errors by reason
  (\<open>ServerError\<close> stands for every other reason), \<open>New\<close> is \<open>errors.New\<close> and
  \<open>Errorf msg e\<close> is \<open>fmt.Errorf("msg: %w", e)\<close>.\<close>

datatype error =
    NotFound
  | AlreadyExists
  | Conflict
  | ServerError string
  | New string
  | Errorf string error
  | AccessorError
  | AlreadyOwnedError
  | MutateFnError

text \<open>\<open>apierrors.IsNotFound\<close> looks through wrapped errors.\<close>

fun IsNotFound :: "error \<Rightarrow> bool" where
  "IsNotFound NotFound = True"
| "IsNotFound (Errorf msg e) = IsNotFound e"
| "IsNotFound _ = False"

fun Error :: "error \<Rightarrow> string" where
  "Error NotFound = ''not found''"
| "Error AlreadyExists = ''already exists''"
| "Error Conflict = ''the object has been modified''"
| "Error (ServerError msg) = msg"
| "Error (New msg) = msg"
| "Error (Errorf msg e) = msg @ '': '' @ Error e"
| "Error AccessorError = ''accessor error''"
| "Error AlreadyOwnedError = ''Object is already owned by another controller''"
| "Error MutateFnError = ''MutateFn cannot mutate object name and/or object namespace''"

section \<open>Status condition utilities\<close>

text \<open>\<open>apimeta.FindStatusCondition\<close>, \<open>apimeta.SetStatusCondition\<close> and
  \<open>apimeta.RemoveStatusCondition\<close> of the apimachinery library: the first condition of
  the type is the one found and updated; a new type is appended; removal drops every
  condition of the type.  The transition time only moves when the status changes.\<close>

definition FindStatusCondition :: "Condition list \<Rightarrow> string \<Rightarrow> Condition option" where
  "FindStatusCondition conditions conditionType = find (\<lambda>c. Type c = conditionType) conditions"

fun SetStatusCondition :: "Condition list \<Rightarrow> Condition \<Rightarrow> Condition list" where
  "SetStatusCondition [] newCondition = [newCondition]"
| "SetStatusCondition (c # conditions) newCondition =
     (if Type c = Type newCondition
      then c\<lparr>Status := Status newCondition,
             LastTransitionTime :=
               (if Status c \<noteq> Status newCondition then LastTransitionTime newCondition
                else LastTransitionTime c),
             Reason := Reason newCondition,
             Message := Message newCondition,
             ObservedGeneration := ObservedGeneration newCondition\<rparr> # conditions
      else c # SetStatusCondition conditions newCondition)"

definition RemoveStatusCondition :: "Condition list \<Rightarrow> string \<Rightarrow> Condition list" where
  "RemoveStatusCondition conditions conditionType = filter (\<lambda>c. Type c \<noteq> conditionType) conditions"



text \<open>The helpers of \<open>utils.go\<close>; \<open>now\<close> is the reading of \<open>metav1.Now()\<close>.\<close>

definition setConditionTrue :: "Condition list \<Rightarrow> 64 word \<Rightarrow> nat \<Rightarrow> string \<Rightarrow> string \<Rightarrow> string \<Rightarrow> Condition list" where
  "setConditionTrue conditions generation now conditionType reason message =
     SetStatusCondition conditions
       \<lparr>Type = conditionType, Status = ConditionTrue, ObservedGeneration = generation,
        LastTransitionTime = now, Reason = reason, Message = message\<rparr>"

definition setConditionFalse :: "Condition list \<Rightarrow> 64 word \<Rightarrow> nat \<Rightarrow> string \<Rightarrow> string \<Rightarrow> string \<Rightarrow> Condition list" where
  "setConditionFalse conditions generation now conditionType reason message =
     SetStatusCondition conditions
       \<lparr>Type = conditionType, Status = ConditionFalse, ObservedGeneration = generation,
        LastTransitionTime = now, Reason = reason, Message = message\<rparr>"

section \<open>The object store behind \<open>client.Client\<close>\<close>

text \<open>
  The reconciler talks to the cluster through the controller-runtime client.  The
  cluster is a record: the stored objects, the store's revision counter, the requests
  issued so far (oldest first), the events recorded so far and the clock.  A call can
  fail for reasons outside the pass (network, admission, a concurrent writer): \<open>faults\<close>
  gives, per verb and kind, the error the next such call returns, if any.  Within one
  reconciliation pass every verb is used at most once per kind.
\<close>

datatype verb = VerbGet | VerbList | VerbCreate | VerbUpdate | VerbPatchStatus

datatype api_call = Call verb string string string

record Event =
  regarding :: NamespacedName
  eventtype :: string
  reason :: string
  message :: string

record world =
  policies :: "WAFPolicy list"
  engines :: "Engine list"
  objects :: "Unstructured list"
  revision :: nat
  faults :: "verb \<Rightarrow> string \<Rightarrow> error option"
  requests :: "api_call list"
  events :: "Event list"
  now :: nat

definition issue :: "verb \<Rightarrow> string \<Rightarrow> NamespacedName \<Rightarrow> world \<Rightarrow> world" where
  "issue v k key w = w\<lparr>requests := requests w @ [Call v k (fst key) (snd key)]\<rparr>"

definition lookup :: "('a ObjectMeta_scheme) list \<Rightarrow> NamespacedName \<Rightarrow> 'a ObjectMeta_scheme option" where
  "lookup store key = find (\<lambda>obj. ObjectKeyFromObject obj = key) store"

definition replace :: "'a ObjectMeta_scheme \<Rightarrow> ('a ObjectMeta_scheme) list \<Rightarrow> ('a ObjectMeta_scheme) list" where
  "replace obj store =
     map (\<lambda>old. if ObjectKeyFromObject old = ObjectKeyFromObject obj then obj else old) store"

text \<open>\<open>Get\<close>: a read of the kind's store by key.\<close>

definition client_Get :: "world \<Rightarrow> string \<Rightarrow> ('a ObjectMeta_scheme) list \<Rightarrow> NamespacedName
    \<Rightarrow> (error + 'a ObjectMeta_scheme) \<times> world" where
  "client_Get w kind store key =
     (let w' = issue VerbGet kind key w in
      case faults w VerbGet kind of
        Some err \<Rightarrow> (Inl err, w')
      | None \<Rightarrow>
          (case lookup store key of
             None \<Rightarrow> (Inl NotFound, w')
           | Some obj \<Rightarrow> (Inr obj, w')))"

text \<open>\<open>Create\<close> and \<open>Update\<close> of an unstructured object.  The object is written
  under its own namespace and name; an update carries the resource version as its
  optimistic-concurrency precondition.\<close>

definition sameKind :: "GroupVersionKind \<Rightarrow> Unstructured list \<Rightarrow> Unstructured list" where
  "sameKind k store = filter (\<lambda>obj. gvk obj = k) store"

definition client_Create :: "world \<Rightarrow> Unstructured \<Rightarrow> (error + Unstructured) \<times> world" where
  "client_Create w obj =
     (let w' = issue VerbCreate (GroupVersionKind.Kind (gvk obj)) (ObjectKeyFromObject obj) w in
      case faults w VerbCreate (GroupVersionKind.Kind (gvk obj)) of
        Some err \<Rightarrow> (Inl err, w')
      | None \<Rightarrow>
          (case lookup (sameKind (gvk obj) (objects w)) (ObjectKeyFromObject obj) of
             Some old \<Rightarrow> (Inl AlreadyExists, w')
           | None \<Rightarrow>
               (let stored = obj\<lparr>ResourceVersion := Suc (revision w)\<rparr> in
                (Inr stored, w'\<lparr>objects := objects w @ [stored], revision := Suc (revision w)\<rparr>))))"

definition client_Update :: "world \<Rightarrow> Unstructured \<Rightarrow> (error + Unstructured) \<times> world" where
  "client_Update w obj =
     (let w' = issue VerbUpdate (GroupVersionKind.Kind (gvk obj)) (ObjectKeyFromObject obj) w in
      case faults w VerbUpdate (GroupVersionKind.Kind (gvk obj)) of
        Some err \<Rightarrow> (Inl err, w')
      | None \<Rightarrow>
          (case lookup (sameKind (gvk obj) (objects w)) (ObjectKeyFromObject obj) of
             None \<Rightarrow> (Inl NotFound, w')
           | Some old \<Rightarrow>
               if ResourceVersion obj \<noteq> ResourceVersion old then (Inl Conflict, w')
               else
                 (let stored = obj\<lparr>ResourceVersion := Suc (revision w)\<rparr> in
                  (Inr stored,
                   w'\<lparr>objects := map (\<lambda>x. if gvk x = gvk obj \<and> ObjectKeyFromObject x = ObjectKeyFromObject obj
                                          then stored else x) (objects w),
                      revision := Suc (revision w)\<rparr>))))"

section \<open>\<open>createOrUpdate\<close> (utils.go)\<close>

definition NamespaceDefault :: string where
  "NamespaceDefault = ''default''"

text \<open>The function returns its error, and leaves the caller's \<open>desired\<close> object
  modified (the resource version it copied, the server's answer to a write): the model
  returns both, with the store.\<close>

definition createOrUpdate :: "world \<Rightarrow> Unstructured \<Rightarrow> error option \<times> Unstructured \<times> world" where
  "createOrUpdate w desired =
     (let k = gvk desired in
      if Empty k then (Some (New ''desired object must have GroupVersionKind set''), desired, w)
      else
        let namespace = Namespace desired; name = ObjectMeta.Name desired in
        if name = [] then (Some (New ''desired object must have a name set''), desired, w)
        else
          let namespace = (if namespace = [] then NamespaceDefault else namespace) in
          case client_Get w (GroupVersionKind.Kind k) (sameKind k (objects w)) (namespace, ObjectMeta.Name desired) of
            (Inl err, w1) \<Rightarrow>
              if IsNotFound err then
                (case client_Create w1 desired of
                   (Inl err', w2) \<Rightarrow>
                     (Some (Errorf (''failed to create '' @ GroupVersionKind.Kind k @ ''/'' @ name
                                     @ '' in namespace '' @ namespace) err'), desired, w2)
                 | (Inr created, w2) \<Rightarrow> (None, created, w2))
              else
                (Some (Errorf (''failed to get '' @ GroupVersionKind.Kind k @ ''/'' @ name
                                @ '' in namespace '' @ namespace) err), desired, w1)
          | (Inr resource, w1) \<Rightarrow>
              (let desired' = desired\<lparr>ResourceVersion := ResourceVersion resource\<rparr> in
               case client_Update w1 desired' of
                 (Inl err, w2) \<Rightarrow>
                   (Some (Errorf (''failed to update '' @ GroupVersionKind.Kind k @ ''/'' @ name
                                   @ '' in namespace '' @ namespace) err), desired', w2)
               | (Inr updated, w2) \<Rightarrow> (None, updated, w2)))"

section \<open>The typed client: policies and engines\<close>

text \<open>
  \<open>WAFPolicy\<close> has a status subresource: an update of the main resource keeps the
  stored status, and \<open>Status().Patch\<close> with \<open>client.MergeFrom(original)\<close> sends a JSON
  merge patch of the difference between the original and the modified object, which for
  the condition list is the whole new list (nothing, when the list did not change).
  The caller's object is overwritten with the server's answer when the call succeeds.
\<close>

definition client_UpdatePolicy :: "world \<Rightarrow> WAFPolicy \<Rightarrow> (error + WAFPolicy) \<times> world" where
  "client_UpdatePolicy w policy =
     (let w' = issue VerbUpdate ''WAFPolicy'' (ObjectKeyFromObject policy) w in
      case faults w VerbUpdate ''WAFPolicy'' of
        Some err \<Rightarrow> (Inl err, w')
      | None \<Rightarrow>
          (case lookup (policies w) (ObjectKeyFromObject policy) of
             None \<Rightarrow> (Inl NotFound, w')
           | Some old \<Rightarrow>
               if ResourceVersion policy \<noteq> ResourceVersion old then (Inl Conflict, w')
               else
                 (let stored = policy\<lparr>ResourceVersion := Suc (revision w), Conditions := Conditions old\<rparr> in
                  (Inr stored, w'\<lparr>policies := replace stored (policies w), revision := Suc (revision w)\<rparr>))))"

definition client_StatusPatch :: "world \<Rightarrow> WAFPolicy \<Rightarrow> WAFPolicy \<Rightarrow> (error + WAFPolicy) \<times> world" where
  "client_StatusPatch w original policy =
     (let w' = issue VerbPatchStatus ''WAFPolicy'' (ObjectKeyFromObject policy) w in
      case faults w VerbPatchStatus ''WAFPolicy'' of
        Some err \<Rightarrow> (Inl err, w')
      | None \<Rightarrow>
          (case lookup (policies w) (ObjectKeyFromObject policy) of
             None \<Rightarrow> (Inl NotFound, w')
           | Some old \<Rightarrow>
               if Conditions policy = Conditions original then (Inr old, w')
               else
                 (let stored = old\<lparr>ResourceVersion := Suc (revision w), Conditions := Conditions policy\<rparr> in
                  (Inr stored, w'\<lparr>policies := replace stored (policies w), revision := Suc (revision w)\<rparr>))))"

definition client_List :: "world \<Rightarrow> string \<Rightarrow> (error + WAFPolicy list) \<times> world" where
  "client_List w namespace =
     (let w' = issue VerbList ''WAFPolicy'' (namespace, []) w in
      case faults w VerbList ''WAFPolicy'' of
        Some err \<Rightarrow> (Inl err, w')
      | None \<Rightarrow>
          (Inr (if namespace = [] then policies w
                else filter (\<lambda>p. Namespace p = namespace) (policies w)), w'))"

definition client_CreateEngine :: "world \<Rightarrow> Engine \<Rightarrow> (error + Engine) \<times> world" where
  "client_CreateEngine w engine =
     (let w' = issue VerbCreate ''Engine'' (ObjectKeyFromObject engine) w in
      case faults w VerbCreate ''Engine'' of
        Some err \<Rightarrow> (Inl err, w')
      | None \<Rightarrow>
          (case lookup (engines w) (ObjectKeyFromObject engine) of
             Some old \<Rightarrow> (Inl AlreadyExists, w')
           | None \<Rightarrow>
               (let stored = engine\<lparr>ResourceVersion := Suc (revision w)\<rparr> in
                (Inr stored, w'\<lparr>engines := engines w @ [stored], revision := Suc (revision w)\<rparr>))))"

definition client_UpdateEngine :: "world \<Rightarrow> Engine \<Rightarrow> (error + Engine) \<times> world" where
  "client_UpdateEngine w engine =
     (let w' = issue VerbUpdate ''Engine'' (ObjectKeyFromObject engine) w in
      case faults w VerbUpdate ''Engine'' of
        Some err \<Rightarrow> (Inl err, w')
      | None \<Rightarrow>
          (case lookup (engines w) (ObjectKeyFromObject engine) of
             None \<Rightarrow> (Inl NotFound, w')
           | Some old \<Rightarrow>
               if ResourceVersion engine \<noteq> ResourceVersion old then (Inl Conflict, w')
               else
                 (let stored = engine\<lparr>ResourceVersion := Suc (revision w)\<rparr> in
                  (Inr stored, w'\<lparr>engines := replace stored (engines w), revision := Suc (revision w)\<rparr>))))"

definition Recorder_Event :: "world \<Rightarrow> WAFPolicy \<Rightarrow> string \<Rightarrow> string \<Rightarrow> string \<Rightarrow> world" where
  "Recorder_Event w policy etype rsn msg =
     w\<lparr>events := events w @
        [\<lparr>regarding = ObjectKeyFromObject policy, eventtype = etype, reason = rsn, message = msg\<rparr>]\<rparr>"

section \<open>controllerutil\<close>

definition ContainsFinalizer :: "'a ObjectMeta_scheme \<Rightarrow> string \<Rightarrow> bool" where
  "ContainsFinalizer obj finalizer = (finalizer \<in> set (Finalizers obj))"

definition AddFinalizer :: "'a ObjectMeta_scheme \<Rightarrow> string \<Rightarrow> 'a ObjectMeta_scheme" where
  "AddFinalizer obj finalizer =
     (if finalizer \<in> set (Finalizers obj) then obj
      else obj\<lparr>Finalizers := Finalizers obj @ [finalizer]\<rparr>)"

definition RemoveFinalizer :: "'a ObjectMeta_scheme \<Rightarrow> string \<Rightarrow> 'a ObjectMeta_scheme" where
  "RemoveFinalizer obj finalizer = obj\<lparr>Finalizers := filter (\<lambda>f. f \<noteq> finalizer) (Finalizers obj)\<rparr>"

text \<open>\<open>SetControllerReference(owner, controlled, scheme)\<close>: the owner must live in the
  namespace of the controlled object, the controlled object must not have another
  controller, and the owner's reference is added or replaced.  Two references name the
  same object when API group, kind and name agree.  The scheme knows \<open>WAFPolicy\<close> (the API
  package registers it), in group \<open>waf.k8s.coraza.io\<close>, version \<open>v1alpha1\<close>.\<close>

definition ParseGroup :: "string \<Rightarrow> string option" where
  "ParseGroup apiVersion =
     (let n = length (filter (\<lambda>c. c = CHR ''/'') apiVersion) in
      if n = 0 then Some []
      else if n = 1 then Some (takeWhile (\<lambda>c. c \<noteq> CHR ''/'') apiVersion)
      else None)"

definition referSameObject :: "OwnerReference \<Rightarrow> OwnerReference \<Rightarrow> bool" where
  "referSameObject a b =
     (case (ParseGroup (OwnerReference.APIVersion a), ParseGroup (OwnerReference.APIVersion b)) of
        (Some ga, Some gb) \<Rightarrow>
          ga = gb \<and> OwnerReference.Kind a = OwnerReference.Kind b
                  \<and> OwnerReference.Name a = OwnerReference.Name b
      | _ \<Rightarrow> False)"

fun upsertOwnerRef :: "OwnerReference \<Rightarrow> OwnerReference list \<Rightarrow> OwnerReference list" where
  "upsertOwnerRef ref [] = [ref]"
| "upsertOwnerRef ref (r # owners) =
     (if referSameObject r ref then ref # owners else r # upsertOwnerRef ref owners)"

definition SetControllerReference :: "WAFPolicy \<Rightarrow> Engine \<Rightarrow> error + Engine" where
  "SetControllerReference owner controlled =
     (if Namespace owner \<noteq> [] \<and> Namespace controlled = []
      then Inl (New ''cluster-scoped resource must not have a namespace-scoped owner'')
      else if Namespace owner \<noteq> [] \<and> Namespace owner \<noteq> Namespace controlled
      then Inl (New ''cross-namespace owner references are disallowed'')
      else
        let ref = \<lparr>OwnerReference.APIVersion = ''waf.k8s.coraza.io/v1alpha1'',
                   OwnerReference.Kind = ''WAFPolicy'',
                   OwnerReference.Name = ObjectMeta.Name owner,
                   OwnerReference.UID = ObjectMeta.UID owner,
                   Controller = True, BlockOwnerDeletion = True\<rparr> in
        case find Controller (OwnerReferences controlled) of
          Some existing \<Rightarrow>
            if \<not> referSameObject existing ref then Inl AlreadyOwnedError
            else Inr (controlled\<lparr>OwnerReferences := upsertOwnerRef ref (OwnerReferences controlled)\<rparr>)
        | None \<Rightarrow> Inr (controlled\<lparr>OwnerReferences := upsertOwnerRef ref (OwnerReferences controlled)\<rparr>))"

text \<open>\<open>controllerutil.CreateOrUpdate(ctx, c, obj, f)\<close>: read the object by its key; when
  it is absent run the mutate function on the given object and create it; when it is
  present run the mutate function on the stored object and update it unless nothing
  changed.  The mutate function must leave the key alone.\<close>

datatype OperationResult = OperationResultNone | OperationResultCreated | OperationResultUpdated

fun OperationResult_String :: "OperationResult \<Rightarrow> string" where
  "OperationResult_String OperationResultNone = ''unchanged''"
| "OperationResult_String OperationResultCreated = ''created''"
| "OperationResult_String OperationResultUpdated = ''updated''"

definition mutate :: "(Engine \<Rightarrow> error + Engine) \<Rightarrow> NamespacedName \<Rightarrow> Engine \<Rightarrow> error + Engine" where
  "mutate f key obj =
     (case f obj of
        Inl err \<Rightarrow> Inl err
      | Inr obj' \<Rightarrow> if key \<noteq> ObjectKeyFromObject obj' then Inl MutateFnError else Inr obj')"

definition CreateOrUpdate :: "world \<Rightarrow> Engine \<Rightarrow> (Engine \<Rightarrow> error + Engine)
    \<Rightarrow> (error + OperationResult) \<times> Engine \<times> world" where
  "CreateOrUpdate w obj f =
     (let key = ObjectKeyFromObject obj in
      case client_Get w ''Engine'' (engines w) key of
        (Inl err, w1) \<Rightarrow>
          if \<not> IsNotFound err then (Inl err, obj, w1)
          else
            (case mutate f key obj of
               Inl err' \<Rightarrow> (Inl err', obj, w1)
             | Inr obj' \<Rightarrow>
                 (case client_CreateEngine w1 obj' of
                    (Inl err', w2) \<Rightarrow> (Inl err', obj', w2)
                  | (Inr created, w2) \<Rightarrow> (Inr OperationResultCreated, created, w2)))
      | (Inr existing, w1) \<Rightarrow>
          (case mutate f key existing of
             Inl err \<Rightarrow> (Inl err, existing, w1)
           | Inr obj' \<Rightarrow>
               if existing = obj' then (Inr OperationResultNone, obj', w1)
               else
                 (case client_UpdateEngine w1 obj' of
                    (Inl err, w2) \<Rightarrow> (Inl err, obj', w2)
                  | (Inr updated, w2) \<Rightarrow> (Inr OperationResultUpdated, updated, w2))))"

section \<open>Reading unstructured content\<close>

text \<open>\<open>unstructured.NestedFieldNoCopy\<close>, \<open>NestedSlice\<close> and \<open>NestedString\<close>: walk the
  named fields; a missing field or a nil on the way is "not found", anything that is not
  a map on the way is an error, and so is a value of the wrong type at the end.\<close>

fun NestedFieldNoCopy :: "json \<Rightarrow> string list \<Rightarrow> error + json option" where
  "NestedFieldNoCopy val [] = Inr (Some val)"
| "NestedFieldNoCopy JNull (field # rest) = Inr None"
| "NestedFieldNoCopy (JObject m) (field # rest) =
     (case map_of m field of
        None \<Rightarrow> Inr None
      | Some val \<Rightarrow> NestedFieldNoCopy val rest)"
| "NestedFieldNoCopy _ (field # rest) = Inl AccessorError"

definition NestedSlice :: "(string \<times> json) list \<Rightarrow> string list \<Rightarrow> json list \<times> bool \<times> error option" where
  "NestedSlice obj path =
     (case NestedFieldNoCopy (JObject obj) path of
        Inl err \<Rightarrow> ([], False, Some err)
      | Inr None \<Rightarrow> ([], False, None)
      | Inr (Some val) \<Rightarrow>
          (case val of
             JArray xs \<Rightarrow> (xs, True, None)
           | _ \<Rightarrow> ([], False, Some AccessorError)))"

definition NestedString :: "(string \<times> json) list \<Rightarrow> string list \<Rightarrow> string \<times> bool \<times> error option" where
  "NestedString obj path =
     (case NestedFieldNoCopy (JObject obj) path of
        Inl err \<Rightarrow> ([], False, Some err)
      | Inr None \<Rightarrow> ([], False, None)
      | Inr (Some val) \<Rightarrow>
          (case val of
             JString s \<Rightarrow> (s, True, None)
           | _ \<Rightarrow> ([], False, Some AccessorError)))"

section \<open>The WAFPolicy controller\<close>

text \<open>
  The functions below follow \<open>wafpolicy_controller.go\<close>.  The receiver's client,
  scheme and recorder are the \<open>world\<close>; its \<open>Config\<close> is the record
  \<open>WAFPolicyReconciler\<close>.  The context, the logger and the request (used for log lines
  only) are left out.  A function that works on \<open>policy *WAFPolicy\<close> returns the policy
  as it leaves it.  \<open>%q\<close> is rendered as the name in double quotes (object names need
  no escaping).
\<close>

definition EngineNamePrefix :: string where
  "EngineNamePrefix = ''wafpolicy-''"

definition wafPolicyFinalizer :: string where
  "wafPolicyFinalizer = ''waf.k8s.coraza.io/wafpolicy-finalizer''"

record WAFPolicyTranslatorConfig =
  DefaultWasmImage :: string
  DefaultPollInterval :: "32 word"
  EnvoyClusterName :: string

record WAFPolicyReconciler =
  Config :: WAFPolicyTranslatorConfig

record Result =
  Requeue :: bool
  RequeueAfter :: nat

definition Result0 :: Result where
  "Result0 = \<lparr>Requeue = False, RequeueAfter = 0\<rparr>"

definition quote :: "string \<Rightarrow> string" where
  "quote s = [CHR 0x22] @ s @ [CHR 0x22]"

definition IsZero :: "nat option \<Rightarrow> bool" where
  "IsZero t = (case t of None \<Rightarrow> True | Some t' \<Rightarrow> t' = 0)"

text \<open>The constant \<open>IstioIntegrationModeGateway\<close> of the API package is the string
  \<open>gateway\<close>.\<close>

definition IstioIntegrationModeGateway :: string where
  "IstioIntegrationModeGateway = ''gateway''"

definition GatewayGVK :: GroupVersionKind where
  "GatewayGVK = \<lparr>GroupVersionKind.Group = ''gateway.networking.k8s.io'', Version = ''v1'',
                  GroupVersionKind.Kind = ''Gateway''\<rparr>"

definition HTTPRouteGVK :: GroupVersionKind where
  "HTTPRouteGVK = \<lparr>GroupVersionKind.Group = ''gateway.networking.k8s.io'', Version = ''v1'',
                    GroupVersionKind.Kind = ''HTTPRoute''\<rparr>"

subsection \<open>Status helper\<close>

definition setNotAccepted :: "world \<Rightarrow> WAFPolicy \<Rightarrow> string \<Rightarrow> string \<Rightarrow> error option \<times> WAFPolicy \<times> world" where
  "setNotAccepted w policy rsn msg =
     (let w1 = Recorder_Event w policy ''Warning'' rsn msg;
          original = policy;
          policy1 = policy\<lparr>Conditions := SetStatusCondition (Conditions policy)
                      \<lparr>Type = ''Accepted'', Status = ConditionFalse,
                       ObservedGeneration = Generation policy, LastTransitionTime = now w,
                       Reason = rsn, Message = msg\<rparr>\<rparr>;
          policy2 = policy1\<lparr>Conditions := RemoveStatusCondition (Conditions policy1) ''Programmed''\<rparr>
      in case client_StatusPatch w1 original policy2 of
           (Inl err, w2) \<Rightarrow> (Some err, policy2, w2)
         | (Inr answered, w2) \<Rightarrow> (None, answered, w2))"

subsection \<open>Engine creation\<close>

text \<open>The struct literal \<open>engine\<close> at the head of \<open>ensureEngine\<close> and the closure it
  hands to \<open>CreateOrUpdate\<close>, which sets the whole spec and the controller reference.\<close>

definition ensureEngine_engine :: "WAFPolicy \<Rightarrow> Engine" where
  "ensureEngine_engine policy =
     \<lparr>Name = EngineNamePrefix @ ObjectMeta.Name policy, Namespace = Namespace policy,
      UID = [], ResourceVersion = 0, Generation = 0, DeletionTimestamp = None,
      Finalizers = [], OwnerReferences = [],
      ESpec = \<lparr>RuleSet = \<lparr>ObjectReference.APIVersion = [], ObjectReference.Kind = [],
                           ObjectReference.Name = []\<rparr>,
               FailurePolicy = [], Driver = \<lparr>Istio = None\<rparr>\<rparr>\<rparr>"

definition ensureEngine_mutate :: "WAFPolicyReconciler \<Rightarrow> WAFPolicy \<Rightarrow> (string \<times> string) list
    \<Rightarrow> Engine \<Rightarrow> error + Engine" where
  "ensureEngine_mutate r policy workloadLabels engine =
     SetControllerReference policy
       (engine\<lparr>ESpec :=
          \<lparr>RuleSet = \<lparr>ObjectReference.APIVersion = ''waf.k8s.coraza.io/v1alpha1'',
                      ObjectReference.Kind = ''RuleSet'',
                      ObjectReference.Name = WAFPolicyRuleSetRef.Name (WAFPolicySpec.RuleSet (Spec policy))\<rparr>,
           FailurePolicy = WAFPolicySpec.FailurePolicy (Spec policy),
           Driver = \<lparr>Istio = Some \<lparr>Wasm = Some
             \<lparr>Image = DefaultWasmImage (Config r),
              Mode = IstioIntegrationModeGateway,
              WorkloadSelector = Some \<lparr>MatchLabels = workloadLabels\<rparr>,
              RuleSetCacheServer = Some \<lparr>PollIntervalSeconds = DefaultPollInterval (Config r)\<rparr>\<rparr>\<rparr>\<rparr>\<rparr>\<rparr>)"

definition ensureEngine :: "WAFPolicyReconciler \<Rightarrow> world \<Rightarrow> WAFPolicy \<Rightarrow> (string \<times> string) list
    \<Rightarrow> Result \<times> error option \<times> WAFPolicy \<times> world" where
  "ensureEngine r w policy workloadLabels =
     (case CreateOrUpdate w (ensureEngine_engine policy) (ensureEngine_mutate r policy workloadLabels) of
        (Inl err, engine, w1) \<Rightarrow>
          (let w2 = Recorder_Event w1 policy ''Warning'' ''EngineSyncFailed''
                      (''Failed to create/update Engine: '' @ Error err);
               original = policy;
               policy1 = policy\<lparr>Conditions := setConditionFalse (Conditions policy) (Generation policy) (now w2)
                                    ''Programmed'' ''EngineSyncFailed''
                                    (''Failed to create/update Engine: '' @ Error err)\<rparr>
           in case client_StatusPatch w2 original policy1 of
                (Inl updateErr, w3) \<Rightarrow> (Result0, Some err, policy1, w3)
              | (Inr answered, w3) \<Rightarrow> (Result0, Some err, answered, w3))
      | (Inr result, engine, w1) \<Rightarrow>
          (let original = policy;
               policy1 = policy\<lparr>Conditions := SetStatusCondition (Conditions policy)
                           \<lparr>Type = ''Accepted'', Status = ConditionTrue,
                            ObservedGeneration = Generation policy, LastTransitionTime = now w1,
                            Reason = ''Accepted'', Message = ''WAFPolicy is accepted''\<rparr>\<rparr>;
               policy2 = policy1\<lparr>Conditions := SetStatusCondition (Conditions policy1)
                           \<lparr>Type = ''Programmed'', Status = ConditionTrue,
                            ObservedGeneration = Generation policy1, LastTransitionTime = now w1,
                            Reason = ''Programmed'',
                            Message = ''Engine '' @ quote (ObjectMeta.Name engine) @ '' ''
                                      @ OperationResult_String result\<rparr>\<rparr>
           in case client_StatusPatch w1 original policy2 of
                (Inl err, w2) \<Rightarrow> (Result0, Some err, policy2, w2)
              | (Inr answered, w2) \<Rightarrow>
                  (Result0, None, answered,
                   Recorder_Event w2 answered ''Normal'' ''Programmed''
                     (''Engine '' @ Namespace engine @ ''/'' @ ObjectMeta.Name engine @ '' ''
                      @ OperationResult_String result))))"

subsection \<open>Gateway and HTTPRoute targeting\<close>

definition reconcileForGateway :: "WAFPolicyReconciler \<Rightarrow> world \<Rightarrow> WAFPolicy
    \<Rightarrow> Result \<times> error option \<times> WAFPolicy \<times> world" where
  "reconcileForGateway r w policy =
     (let gatewayName = LocalPolicyTargetReference.Name (TargetRef (Spec policy)) in
      case client_Get w ''Gateway'' (sameKind GatewayGVK (objects w)) (Namespace policy, gatewayName) of
        (Inl err, w1) \<Rightarrow>
          if IsNotFound err then
            (case setNotAccepted w1 policy ''TargetNotFound''
                    (''Gateway '' @ quote gatewayName @ '' not found'') of
               (err', policy', w2) \<Rightarrow> (\<lparr>Requeue = True, RequeueAfter = 0\<rparr>, err', policy', w2))
          else (Result0, Some err, policy, w1)
      | (Inr gw, w1) \<Rightarrow>
          ensureEngine r w1 policy [(''gateway.networking.k8s.io/gateway-name'', gatewayName)])"

definition reconcileForHTTPRoute :: "WAFPolicyReconciler \<Rightarrow> world \<Rightarrow> WAFPolicy
    \<Rightarrow> Result \<times> error option \<times> WAFPolicy \<times> world" where
  "reconcileForHTTPRoute r w policy =
     (let routeName = LocalPolicyTargetReference.Name (TargetRef (Spec policy)) in
      case client_Get w ''HTTPRoute'' (sameKind HTTPRouteGVK (objects w)) (Namespace policy, routeName) of
        (Inl err, w1) \<Rightarrow>
          if IsNotFound err then
            (case setNotAccepted w1 policy ''TargetNotFound''
                    (''HTTPRoute '' @ quote routeName @ '' not found'') of
               (err', policy', w2) \<Rightarrow> (\<lparr>Requeue = True, RequeueAfter = 0\<rparr>, err', policy', w2))
          else (Result0, Some err, policy, w1)
      | (Inr route, w1) \<Rightarrow>
          (case NestedSlice (Object route) [''spec'', ''parentRefs''] of
             (parentRefs, found, err) \<Rightarrow>
               if err \<noteq> None \<or> \<not> found \<or> length parentRefs = 0 then
                 (case setNotAccepted w1 policy ''NoParentGateway''
                         (''HTTPRoute '' @ quote routeName @ '' has no parentRefs'') of
                    (err', policy', w2) \<Rightarrow> (Result0, err', policy', w2))
               else
                 (case parentRefs ! 0 of
                    JObject firstParent \<Rightarrow>
                      (case NestedString firstParent [''name''] of
                         (gatewayName, found', err') \<Rightarrow>
                           if gatewayName = [] then
                             (case setNotAccepted w1 policy ''InvalidParentRef''
                                     (''HTTPRoute '' @ quote routeName @ '' parentRef has no gateway name'') of
                                (err'', policy', w2) \<Rightarrow> (Result0, err'', policy', w2))
                           else
                             ensureEngine r w1 policy
                               [(''gateway.networking.k8s.io/gateway-name'', gatewayName)])
                  | _ \<Rightarrow>
                      (case setNotAccepted w1 policy ''InvalidParentRef''
                              (''HTTPRoute '' @ quote routeName @ '' has invalid parentRef'') of
                         (err', policy', w2) \<Rightarrow> (Result0, err', policy', w2)))))"

subsection \<open>Deletion handling\<close>

definition handleDeletion :: "world \<Rightarrow> WAFPolicy \<Rightarrow> Result \<times> error option \<times> WAFPolicy \<times> world" where
  "handleDeletion w policy =
     (if ContainsFinalizer policy wafPolicyFinalizer then
        (let policy1 = RemoveFinalizer policy wafPolicyFinalizer in
         case client_UpdatePolicy w policy1 of
           (Inl err, w1) \<Rightarrow> (Result0, Some err, policy1, w1)
         | (Inr answered, w1) \<Rightarrow> (Result0, None, answered, w1))
      else (Result0, None, policy, w))"

subsection \<open>The reconciler\<close>

definition Reconcile :: "WAFPolicyReconciler \<Rightarrow> world \<Rightarrow> NamespacedName \<Rightarrow> Result \<times> error option \<times> world" where
  "Reconcile r w req =
     (case client_Get w ''WAFPolicy'' (policies w) req of
        (Inl err, w1) \<Rightarrow>
          if IsNotFound err then (Result0, None, w1) else (Result0, Some err, w1)
      | (Inr policy, w1) \<Rightarrow>
          if \<not> IsZero (DeletionTimestamp policy) then
            (case handleDeletion w1 policy of (res, err, policy', w2) \<Rightarrow> (res, err, w2))
          else
            (case (if \<not> ContainsFinalizer policy wafPolicyFinalizer
                   then client_UpdatePolicy w1 (AddFinalizer policy wafPolicyFinalizer)
                   else (Inr policy, w1)) of
               (Inl err, w2) \<Rightarrow> (Result0, Some err, w2)
             | (Inr policy', w2) \<Rightarrow>
                 (let kind = LocalPolicyTargetReference.Kind (TargetRef (Spec policy')) in
                  if kind = ''Gateway'' then
                    (case reconcileForGateway r w2 policy' of (res, err, policy'', w3) \<Rightarrow> (res, err, w3))
                  else if kind = ''HTTPRoute'' then
                    (case reconcileForHTTPRoute r w2 policy' of (res, err, policy'', w3) \<Rightarrow> (res, err, w3))
                  else
                    (case setNotAccepted w2 policy' ''InvalidTargetRef''
                            (''Unsupported targetRef kind: '' @ kind) of
                       (err, policy'', w3) \<Rightarrow> (Result0, err, w3)))))"

subsection \<open>Watch mappers\<close>

text \<open>The loop of \<open>findPoliciesForTarget\<close> over the listed items, appending to
  \<open>requests\<close>.\<close>

fun appendMatching :: "string \<Rightarrow> string \<Rightarrow> WAFPolicy list \<Rightarrow> NamespacedName list \<Rightarrow> NamespacedName list" where
  "appendMatching kind name [] reqs = reqs"
| "appendMatching kind name (p # items) reqs =
     appendMatching kind name items
       (if LocalPolicyTargetReference.Kind (TargetRef (Spec p)) = kind
            \<and> LocalPolicyTargetReference.Name (TargetRef (Spec p)) = name
        then reqs @ [(Namespace p, ObjectMeta.Name p)]
        else reqs)"

definition findPoliciesForTarget :: "world \<Rightarrow> string \<Rightarrow> string \<Rightarrow> string \<Rightarrow> NamespacedName list \<times> world" where
  "findPoliciesForTarget w kind name namespace =
     (case client_List w namespace of
        (Inl err, w1) \<Rightarrow> ([], w1)
      | (Inr items, w1) \<Rightarrow> (appendMatching kind name items [], w1))"

definition findPoliciesForGateway :: "world \<Rightarrow> Unstructured \<Rightarrow> NamespacedName list \<times> world" where
  "findPoliciesForGateway w obj = findPoliciesForTarget w ''Gateway'' (ObjectMeta.Name obj) (Namespace obj)"

definition findPoliciesForHTTPRoute :: "world \<Rightarrow> Unstructured \<Rightarrow> NamespacedName list \<times> world" where
  "findPoliciesForHTTPRoute w obj = findPoliciesForTarget w ''HTTPRoute'' (ObjectMeta.Name obj) (Namespace obj)"

section \<open>Example objects\<close>

text \<open>The reconciler configuration of the controller tests, a policy, a Gateway, an
  HTTPRoute with a given \<open>spec\<close>, and a cluster in which no call fails.\<close>

definition testConfig :: WAFPolicyTranslatorConfig where
  "testConfig = \<lparr>DefaultWasmImage = ''oci://ghcr.io/test/coraza-proxy-wasm:latest'',
                 DefaultPollInterval = 15, EnvoyClusterName = ''test-cluster''\<rparr>"

definition testPolicy :: "string \<Rightarrow> string \<Rightarrow> WAFPolicy" where
  "testPolicy kind target =
     \<lparr>Name = ''p1'', Namespace = ''default'', UID = ''uid-1'', ResourceVersion = 1,
      Generation = 1, DeletionTimestamp = None, Finalizers = [], OwnerReferences = [],
      Spec = \<lparr>TargetRef = \<lparr>LocalPolicyTargetReference.Group = ''gateway.networking.k8s.io'',
                            LocalPolicyTargetReference.Kind = kind,
                            LocalPolicyTargetReference.Name = target\<rparr>,
              WAFPolicySpec.RuleSet = \<lparr>WAFPolicyRuleSetRef.Name = ''test-ruleset''\<rparr>,
              WAFPolicySpec.FailurePolicy = ''fail''\<rparr>,
      Conditions = []\<rparr>"

definition testGateway :: Unstructured where
  "testGateway =
     \<lparr>Name = ''gw1'', Namespace = ''default'', UID = ''uid-2'', ResourceVersion = 2,
      Generation = 1, DeletionTimestamp = None, Finalizers = [], OwnerReferences = [],
      gvk = GatewayGVK, Object = []\<rparr>"


definition testWorld :: "WAFPolicy list \<Rightarrow> Unstructured list \<Rightarrow> world" where
  "testWorld ps os =
     \<lparr>policies = ps, engines = [], objects = os, revision = 3,
      faults = (\<lambda>v k. None), requests = [], events = [], now = 100\<rparr>"


definition testReconciler :: WAFPolicyReconciler where
  "testReconciler = \<lparr>Config = testConfig\<rparr>"

definition testLabels :: "(string \<times> string) list" where
  "testLabels = [(''gateway.networking.k8s.io/gateway-name'', ''gw1'')]"


section \<open>Basic facts about the store\<close>

lemma issue_simps [simp]:
  "requests (issue v k key w) = requests w @ [Call v k (fst key) (snd key)]"
  "policies (issue v k key w) = policies w"
  "engines (issue v k key w) = engines w"
  "objects (issue v k key w) = objects w"
  "events (issue v k key w) = events w"
  "faults (issue v k key w) = faults w"
  "revision (issue v k key w) = revision w"
  "now (issue v k key w) = now w"
  by (simp_all add: issue_def)

lemma Recorder_Event_simps [simp]:
  "requests (Recorder_Event w p t r m) = requests w"
  "policies (Recorder_Event w p t r m) = policies w"
  "engines (Recorder_Event w p t r m) = engines w"
  "objects (Recorder_Event w p t r m) = objects w"
  "faults (Recorder_Event w p t r m) = faults w"
  "revision (Recorder_Event w p t r m) = revision w"
  "now (Recorder_Event w p t r m) = now w"
  by (simp_all add: Recorder_Event_def)

section \<open>The enforcement cluster name is not used\<close>

text \<open>
  Claim C10.  Two translator configurations that agree on the default image and the
  default poll interval, and so differ at most in \<open>EnvoyClusterName\<close>, give the same
  outcome of \<open>ensureEngine\<close> for every cluster state, policy and workload selector: the
  same result and error, the same policy status, and the same cluster afterwards, in
  particular the same stored Engine with the same spec.
\<close>

theorem ensureEngine_ignores_EnvoyClusterName:
  assumes "DefaultWasmImage c1 = DefaultWasmImage c2"
    and "DefaultPollInterval c1 = DefaultPollInterval c2"
  shows "ensureEngine \<lparr>Config = c1\<rparr> w policy workloadLabels
       = ensureEngine \<lparr>Config = c2\<rparr> w policy workloadLabels"
proof -
  have "ensureEngine_mutate \<lparr>Config = c1\<rparr> policy workloadLabels
      = ensureEngine_mutate \<lparr>Config = c2\<rparr> policy workloadLabels"
    using assms by (intro ext) (simp add: ensureEngine_mutate_def)
  then show ?thesis
    by (simp add: ensureEngine_def)
qed

theorem ensureEngine_ignores_EnvoyClusterName_witness:
  "DefaultWasmImage testConfig = DefaultWasmImage (testConfig\<lparr>EnvoyClusterName := ''other-cluster''\<rparr>)
   \<and> DefaultPollInterval testConfig = DefaultPollInterval (testConfig\<lparr>EnvoyClusterName := ''other-cluster''\<rparr>)
   \<and> EnvoyClusterName testConfig \<noteq> EnvoyClusterName (testConfig\<lparr>EnvoyClusterName := ''other-cluster''\<rparr>)
   \<and> ensureEngine \<lparr>Config = testConfig\<rparr>
        (testWorld [testPolicy ''Gateway'' ''gw1''] [testGateway]) (testPolicy ''Gateway'' ''gw1'')
        [(''gateway.networking.k8s.io/gateway-name'', ''gw1'')]
     = ensureEngine \<lparr>Config = testConfig\<lparr>EnvoyClusterName := ''other-cluster''\<rparr>\<rparr>
        (testWorld [testPolicy ''Gateway'' ''gw1''] [testGateway]) (testPolicy ''Gateway'' ''gw1'')
        [(''gateway.networking.k8s.io/gateway-name'', ''gw1'')]"
  using ensureEngine_ignores_EnvoyClusterName
          [of testConfig "testConfig\<lparr>EnvoyClusterName := ''other-cluster''\<rparr>"
              "testWorld [testPolicy ''Gateway'' ''gw1''] [testGateway]" "testPolicy ''Gateway'' ''gw1''"
              "[(''gateway.networking.k8s.io/gateway-name'', ''gw1'')]"]
  by (simp add: testConfig_def)

section \<open>Watch fan-out\<close>

lemma appendMatching_filter:
  "appendMatching kind name items reqs =
     reqs @ map ObjectKeyFromObject
       (filter (\<lambda>p. LocalPolicyTargetReference.Kind (TargetRef (Spec p)) = kind
                  \<and> LocalPolicyTargetReference.Name (TargetRef (Spec p)) = name) items)"
  by (induction items arbitrary: reqs) (auto simp: ObjectKeyFromObject_def)

text \<open>
  Claim C9.  For a target event of kind \<open>kind\<close>, name \<open>name\<close> and (non-empty)
  namespace \<open>namespace\<close>: when the listing succeeds, \<open>findPoliciesForTarget\<close> returns
  the keys of exactly the stored policies of that namespace whose \<open>targetRef\<close> has that
  kind and that name, in listing order (no key is missing and no other key is returned);
  when the listing fails it returns the empty list.
\<close>

theorem findPoliciesForTarget_exact:
  assumes "namespace \<noteq> []"
  shows "(faults w VerbList ''WAFPolicy'' = None \<longrightarrow>
            fst (findPoliciesForTarget w kind name namespace) =
              map ObjectKeyFromObject
                (filter (\<lambda>p. Namespace p = namespace
                           \<and> LocalPolicyTargetReference.Kind (TargetRef (Spec p)) = kind
                           \<and> LocalPolicyTargetReference.Name (TargetRef (Spec p)) = name) (policies w))
          \<and> set (fst (findPoliciesForTarget w kind name namespace)) =
              {(Namespace p, ObjectMeta.Name p) | p.
                 p \<in> set (policies w) \<and> Namespace p = namespace
                 \<and> LocalPolicyTargetReference.Kind (TargetRef (Spec p)) = kind
                 \<and> LocalPolicyTargetReference.Name (TargetRef (Spec p)) = name})
       \<and> (faults w VerbList ''WAFPolicy'' \<noteq> None \<longrightarrow>
            fst (findPoliciesForTarget w kind name namespace) = [])"
proof -
  let ?match = "\<lambda>p. LocalPolicyTargetReference.Kind (TargetRef (Spec p)) = kind
                  \<and> LocalPolicyTargetReference.Name (TargetRef (Spec p)) = name"
  have listed: "faults w VerbList ''WAFPolicy'' = None \<Longrightarrow>
      fst (findPoliciesForTarget w kind name namespace) =
        map ObjectKeyFromObject (filter ?match (filter (\<lambda>p. Namespace p = namespace) (policies w)))"
    using assms
    by (simp add: findPoliciesForTarget_def client_List_def Let_def appendMatching_filter)
  have failed: "faults w VerbList ''WAFPolicy'' \<noteq> None \<Longrightarrow>
      fst (findPoliciesForTarget w kind name namespace) = []"
    by (auto simp: findPoliciesForTarget_def client_List_def Let_def)
  have conj_filter: "filter ?match (filter (\<lambda>p. Namespace p = namespace) (policies w)) =
      filter (\<lambda>p. Namespace p = namespace \<and> ?match p) (policies w)"
    by (simp add: conj_commute)
  show ?thesis
    using listed failed
    by (auto simp: conj_filter ObjectKeyFromObject_def)
qed


theorem findPoliciesForTarget_exact_witness:
  "''default'' \<noteq> []
   \<and> fst (findPoliciesForTarget
          (testWorld [testPolicy ''Gateway'' ''gw1'',
                      (testPolicy ''HTTPRoute'' ''gw1'')\<lparr>ObjectMeta.Name := ''p2''\<rparr>,
                      (testPolicy ''Gateway'' ''gw1'')\<lparr>ObjectMeta.Name := ''p3'', Namespace := ''other''\<rparr>,
                      (testPolicy ''Gateway'' ''gw2'')\<lparr>ObjectMeta.Name := ''p4''\<rparr>] [])
          ''Gateway'' ''gw1'' ''default'') = [(''default'', ''p1'')]
   \<and> fst (findPoliciesForTarget
          ((testWorld [testPolicy ''Gateway'' ''gw1''] [])\<lparr>faults := (\<lambda>v k. Some (ServerError ''timeout''))\<rparr>)
          ''Gateway'' ''gw1'' ''default'') = []"
  using findPoliciesForTarget_exact
          [of "''default''"
              "testWorld [testPolicy ''Gateway'' ''gw1'',
                      (testPolicy ''HTTPRoute'' ''gw1'')\<lparr>ObjectMeta.Name := ''p2''\<rparr>,
                      (testPolicy ''Gateway'' ''gw1'')\<lparr>ObjectMeta.Name := ''p3'', Namespace := ''other''\<rparr>,
                      (testPolicy ''Gateway'' ''gw2'')\<lparr>ObjectMeta.Name := ''p4''\<rparr>] []"
              "''Gateway''" "''gw1''"]
        findPoliciesForTarget_exact
          [of "''default''"
              "(testWorld [testPolicy ''Gateway'' ''gw1''] [])\<lparr>faults := (\<lambda>v k. Some (ServerError ''timeout''))\<rparr>"
              "''Gateway''" "''gw1''"]
  by (simp add: testWorld_def testPolicy_def ObjectKeyFromObject_def)

section \<open>The create-or-update primitive\<close>

lemma lookup_sameKind_append:
  assumes "lookup (sameKind k store) key = None" "gvk new = k" "ObjectKeyFromObject new = key"
  shows "lookup (sameKind k (store @ [new])) key = Some new"
  using assms by (induction store) (auto simp: lookup_def sameKind_def split: if_splits)

lemma lookup_sameKind_map:
  assumes "lookup (sameKind k store) key = Some old" "gvk new = k" "ObjectKeyFromObject new = key"
  shows "lookup (sameKind k (map (\<lambda>x. if gvk x = k \<and> ObjectKeyFromObject x = key then new else x) store)) key
         = Some new"
  using assms by (induction store) (auto simp: lookup_def sameKind_def split: if_splits)


lemma lookup_sameKind_gvk:
  "lookup (sameKind k store) key = Some obj \<Longrightarrow> gvk obj = k"
  by (induction store) (auto simp: lookup_def sameKind_def split: if_splits)

lemma client_Create_fresh:
  assumes "faults w VerbCreate (GroupVersionKind.Kind (gvk obj)) = None"
    and "lookup (sameKind (gvk obj) (objects w)) (ObjectKeyFromObject obj) = None"
  shows "client_Create w obj =
           (Inr (obj\<lparr>ResourceVersion := Suc (revision w)\<rparr>),
            (issue VerbCreate (GroupVersionKind.Kind (gvk obj)) (ObjectKeyFromObject obj) w)
              \<lparr>objects := objects w @ [obj\<lparr>ResourceVersion := Suc (revision w)\<rparr>],
               revision := Suc (revision w)\<rparr>)"
  using assms by (simp add: client_Create_def Let_def)

lemma client_Create_fault:
  assumes "faults w VerbCreate (GroupVersionKind.Kind (gvk obj)) = Some e"
  shows "client_Create w obj =
           (Inl e, issue VerbCreate (GroupVersionKind.Kind (gvk obj)) (ObjectKeyFromObject obj) w)"
  using assms by (simp add: client_Create_def Let_def)

lemma client_Create_requests:
  "requests (snd (client_Create w obj)) =
     requests w @ [Call VerbCreate (GroupVersionKind.Kind (gvk obj)) (Namespace obj) (ObjectMeta.Name obj)]"
  by (simp add: client_Create_def Let_def ObjectKeyFromObject_def split: option.splits)

lemma client_Update_requests:
  "requests (snd (client_Update w obj)) =
     requests w @ [Call VerbUpdate (GroupVersionKind.Kind (gvk obj)) (Namespace obj) (ObjectMeta.Name obj)]"
  by (simp add: client_Update_def Let_def ObjectKeyFromObject_def split: option.splits)

lemma client_Update_current:
  assumes "faults w VerbUpdate (GroupVersionKind.Kind (gvk obj)) = None"
    and "lookup (sameKind (gvk obj) (objects w)) (ObjectKeyFromObject obj) = Some old"
    and "ResourceVersion obj = ResourceVersion old"
  shows "client_Update w obj =
           (Inr (obj\<lparr>ResourceVersion := Suc (revision w)\<rparr>),
            (issue VerbUpdate (GroupVersionKind.Kind (gvk obj)) (ObjectKeyFromObject obj) w)
              \<lparr>objects := map (\<lambda>x. if gvk x = gvk obj \<and> ObjectKeyFromObject x = ObjectKeyFromObject obj
                                    then obj\<lparr>ResourceVersion := Suc (revision w)\<rparr> else x) (objects w),
               revision := Suc (revision w)\<rparr>)"
  using assms by (simp add: client_Update_def Let_def)

lemma client_Update_fault:
  assumes "faults w VerbUpdate (GroupVersionKind.Kind (gvk obj)) = Some e"
  shows "client_Update w obj =
           (Inl e, issue VerbUpdate (GroupVersionKind.Kind (gvk obj)) (ObjectKeyFromObject obj) w)"
  using assms by (simp add: client_Update_def Let_def)

lemma client_Get_eq:
  "client_Get w k store key =
     ((case faults w VerbGet k of
         Some err \<Rightarrow> Inl err
       | None \<Rightarrow> (case lookup store key of None \<Rightarrow> Inl NotFound | Some obj \<Rightarrow> Inr obj)),
      issue VerbGet k key w)"
  by (simp add: client_Get_def Let_def split: option.splits)

text \<open>What \<open>createOrUpdate\<close> does once the identity checks have passed, by the outcome
  of the read.\<close>

lemma createOrUpdate_after_checks:
  assumes "\<not> Empty (gvk desired)" "ObjectMeta.Name desired \<noteq> []"
  shows "createOrUpdate w desired =
     (let k = gvk desired; name = ObjectMeta.Name desired;
          namespace = (if Namespace desired = [] then NamespaceDefault else Namespace desired);
          w1 = issue VerbGet (GroupVersionKind.Kind k) (namespace, name) w in
      case fst (client_Get w (GroupVersionKind.Kind k) (sameKind k (objects w)) (namespace, name)) of
        Inl err \<Rightarrow>
          if IsNotFound err then
            (case client_Create w1 desired of
               (Inl err', w2) \<Rightarrow>
                 (Some (Errorf (''failed to create '' @ GroupVersionKind.Kind k @ ''/'' @ name
                                 @ '' in namespace '' @ namespace) err'), desired, w2)
             | (Inr created, w2) \<Rightarrow> (None, created, w2))
          else
            (Some (Errorf (''failed to get '' @ GroupVersionKind.Kind k @ ''/'' @ name
                            @ '' in namespace '' @ namespace) err), desired, w1)
      | Inr resource \<Rightarrow>
          (case client_Update w1 (desired\<lparr>ResourceVersion := ResourceVersion resource\<rparr>) of
             (Inl err, w2) \<Rightarrow>
               (Some (Errorf (''failed to update '' @ GroupVersionKind.Kind k @ ''/'' @ name
                               @ '' in namespace '' @ namespace) err),
                desired\<lparr>ResourceVersion := ResourceVersion resource\<rparr>, w2)
           | (Inr updated, w2) \<Rightarrow> (None, updated, w2)))"
  using assms
  by (simp add: createOrUpdate_def client_Get_eq Let_def split: option.splits sum.splits)

text \<open>
  Claim C5.  For a desired object with kind, name and namespace set, \<open>createOrUpdate\<close>
  first issues a get for the object's kind and key.  If the get reports not-found, the
  only other request is one create of the desired object; when the create does not fail
  the function returns no error and the object is stored.  If the get finds the object,
  the only other request is one update of the desired object carrying the stored
  resource version: without a failure of the update call it is accepted whatever
  version the desired object had before, and the function returns no error; an error of
  the update call (a conflict with a concurrent writer, say) is returned wrapped, with
  the store unchanged and no second attempt.  Any other error of the get is returned
  wrapped with no further request.
\<close>

theorem createOrUpdate_get_create_update:
  assumes "\<not> Empty (gvk desired)" and "ObjectMeta.Name desired \<noteq> []" and "Namespace desired \<noteq> []"
    and "createOrUpdate w desired = (err, desired', w')"
  shows
    "(\<forall>e. fst (client_Get w (GroupVersionKind.Kind (gvk desired)) (sameKind (gvk desired) (objects w))
                 (ObjectKeyFromObject desired)) = Inl e \<longrightarrow>
        (if IsNotFound e then
           requests w' = requests w @
             [Call VerbGet (GroupVersionKind.Kind (gvk desired)) (Namespace desired) (ObjectMeta.Name desired),
              Call VerbCreate (GroupVersionKind.Kind (gvk desired)) (Namespace desired) (ObjectMeta.Name desired)]
           \<and> (case faults w VerbCreate (GroupVersionKind.Kind (gvk desired)) of
                 Some e' \<Rightarrow> (\<exists>msg. err = Some (Errorf msg e')) \<and> objects w' = objects w
               | None \<Rightarrow>
                   lookup (sameKind (gvk desired) (objects w)) (ObjectKeyFromObject desired) = None \<longrightarrow>
                     err = None
                     \<and> lookup (sameKind (gvk desired) (objects w')) (ObjectKeyFromObject desired)
                         = Some (desired\<lparr>ResourceVersion := Suc (revision w)\<rparr>))
         else
           requests w' = requests w @
             [Call VerbGet (GroupVersionKind.Kind (gvk desired)) (Namespace desired) (ObjectMeta.Name desired)]
           \<and> (\<exists>msg. err = Some (Errorf msg e)) \<and> objects w' = objects w))
   \<and> (\<forall>resource. fst (client_Get w (GroupVersionKind.Kind (gvk desired)) (sameKind (gvk desired) (objects w))
                 (ObjectKeyFromObject desired)) = Inr resource \<longrightarrow>
        requests w' = requests w @
          [Call VerbGet (GroupVersionKind.Kind (gvk desired)) (Namespace desired) (ObjectMeta.Name desired),
           Call VerbUpdate (GroupVersionKind.Kind (gvk desired)) (Namespace desired) (ObjectMeta.Name desired)]
        \<and> (case faults w VerbUpdate (GroupVersionKind.Kind (gvk desired)) of
              Some e' \<Rightarrow>
                (\<exists>msg. err = Some (Errorf msg e')) \<and> objects w' = objects w
                \<and> ResourceVersion desired' = ResourceVersion resource
            | None \<Rightarrow>
                err = None
                \<and> lookup (sameKind (gvk desired) (objects w')) (ObjectKeyFromObject desired)
                    = Some (desired\<lparr>ResourceVersion := Suc (revision w)\<rparr>)))"
proof -
  let ?k = "gvk desired"
  let ?K = "GroupVersionKind.Kind ?k"
  let ?key = "ObjectKeyFromObject desired"
  let ?w1 = "issue VerbGet ?K ?key w"
  let ?get = "fst (client_Get w ?K (sameKind ?k (objects w)) ?key)"
  have key: "?key = (Namespace desired, ObjectMeta.Name desired)"
    by (simp add: ObjectKeyFromObject_def)
  note unfolded = createOrUpdate_after_checks [OF assms(1,2), of w, unfolded Let_def, simplified assms(3) if_False, folded key]
  have absent: "requests w' = requests w @
             [Call VerbGet ?K (Namespace desired) (ObjectMeta.Name desired),
              Call VerbCreate ?K (Namespace desired) (ObjectMeta.Name desired)]
           \<and> (case faults w VerbCreate ?K of
                 Some e' \<Rightarrow> (\<exists>msg. err = Some (Errorf msg e')) \<and> objects w' = objects w
               | None \<Rightarrow>
                   lookup (sameKind ?k (objects w)) ?key = None \<longrightarrow>
                     err = None
                     \<and> lookup (sameKind ?k (objects w')) ?key = Some (desired\<lparr>ResourceVersion := Suc (revision w)\<rparr>))"
    if get: "?get = Inl e" and nf: "IsNotFound e" for e
  proof -
    have run: "(err, desired', w') =
        (case client_Create ?w1 desired of
           (Inl err', w2) \<Rightarrow>
             (Some (Errorf (''failed to create '' @ ?K @ ''/'' @ ObjectMeta.Name desired
                             @ '' in namespace '' @ Namespace desired) err'), desired, w2)
         | (Inr created, w2) \<Rightarrow> (None, created, w2))"
      using unfolded get nf assms(4) by simp
    have w': "w' = snd (client_Create ?w1 desired)"
      using run by (auto split: prod.splits sum.splits)
    have reqs: "requests w' = requests w @
             [Call VerbGet ?K (Namespace desired) (ObjectMeta.Name desired),
              Call VerbCreate ?K (Namespace desired) (ObjectMeta.Name desired)]"
      unfolding w' client_Create_requests by (simp add: key)
    show ?thesis
    proof (cases "faults w VerbCreate ?K")
      case (Some e')
      then have "client_Create ?w1 desired = (Inl e', issue VerbCreate ?K ?key ?w1)"
        by (simp add: client_Create_fault)
      with run Some reqs show ?thesis by simp
    next
      case None
      show ?thesis
      proof (cases "lookup (sameKind ?k (objects w)) ?key")
        case absent: None
        then have "client_Create ?w1 desired =
           (Inr (desired\<lparr>ResourceVersion := Suc (revision w)\<rparr>),
            (issue VerbCreate ?K ?key ?w1)
              \<lparr>objects := objects w @ [desired\<lparr>ResourceVersion := Suc (revision w)\<rparr>],
               revision := Suc (revision w)\<rparr>)"
          using None client_Create_fresh [of ?w1 desired] by simp
        with run have "err = None"
          and "objects w' = objects w @ [desired\<lparr>ResourceVersion := Suc (revision w)\<rparr>]"
          by simp_all
        moreover have "lookup (sameKind ?k (objects w @ [desired\<lparr>ResourceVersion := Suc (revision w)\<rparr>])) ?key
            = Some (desired\<lparr>ResourceVersion := Suc (revision w)\<rparr>)"
          by (rule lookup_sameKind_append [OF absent]) (simp_all add: ObjectKeyFromObject_def)
        ultimately show ?thesis using reqs None by simp
      next
        case (Some old)
        with reqs None show ?thesis by simp
      qed
    qed
  qed
  have other: "requests w' = requests w @
             [Call VerbGet ?K (Namespace desired) (ObjectMeta.Name desired)]
           \<and> (\<exists>msg. err = Some (Errorf msg e)) \<and> objects w' = objects w"
    if get: "?get = Inl e" and nf: "\<not> IsNotFound e" for e
    using unfolded get nf assms(4) by (auto simp: key)
  have found: "requests w' = requests w @
          [Call VerbGet ?K (Namespace desired) (ObjectMeta.Name desired),
           Call VerbUpdate ?K (Namespace desired) (ObjectMeta.Name desired)]
        \<and> (case faults w VerbUpdate ?K of
              Some e' \<Rightarrow>
                (\<exists>msg. err = Some (Errorf msg e')) \<and> objects w' = objects w
                \<and> ResourceVersion desired' = ResourceVersion resource
            | None \<Rightarrow>
                err = None
                \<and> lookup (sameKind ?k (objects w')) ?key = Some (desired\<lparr>ResourceVersion := Suc (revision w)\<rparr>))"
    if get: "?get = Inr resource" for resource
  proof -
    let ?d = "desired\<lparr>ResourceVersion := ResourceVersion resource\<rparr>"
    have run: "(err, desired', w') =
        (case client_Update ?w1 ?d of
           (Inl err', w2) \<Rightarrow>
             (Some (Errorf (''failed to update '' @ ?K @ ''/'' @ ObjectMeta.Name desired
                             @ '' in namespace '' @ Namespace desired) err'), ?d, w2)
         | (Inr updated, w2) \<Rightarrow> (None, updated, w2))"
      using unfolded get assms(4) by simp
    have w': "w' = snd (client_Update ?w1 ?d)"
      using run by (auto split: prod.splits sum.splits)
    have reqs: "requests w' = requests w @
          [Call VerbGet ?K (Namespace desired) (ObjectMeta.Name desired),
           Call VerbUpdate ?K (Namespace desired) (ObjectMeta.Name desired)]"
      unfolding w' client_Update_requests by (simp add: key)
    have stored: "lookup (sameKind ?k (objects w)) ?key = Some resource"
      using get by (auto simp: client_Get_eq split: option.splits)
    have dkey: "ObjectKeyFromObject ?d = ?key" and dk: "gvk ?d = ?k"
      by (simp_all add: ObjectKeyFromObject_def)
    show ?thesis
    proof (cases "faults w VerbUpdate ?K")
      case (Some e')
      then have "client_Update ?w1 ?d = (Inl e', issue VerbUpdate ?K ?key ?w1)"
        using client_Update_fault [of ?w1 ?d e'] by (simp add: dkey)
      with run Some reqs show ?thesis by simp
    next
      case None
      have "client_Update ?w1 ?d =
           (Inr (?d\<lparr>ResourceVersion := Suc (revision w)\<rparr>),
            (issue VerbUpdate ?K ?key ?w1)
              \<lparr>objects := map (\<lambda>x. if gvk x = ?k \<and> ObjectKeyFromObject x = ?key
                                    then ?d\<lparr>ResourceVersion := Suc (revision w)\<rparr> else x) (objects w),
               revision := Suc (revision w)\<rparr>)"
        using None stored client_Update_current [of ?w1 ?d resource] by (simp add: dkey)
      with run have "err = None"
        and objs: "objects w' = map (\<lambda>x. if gvk x = ?k \<and> ObjectKeyFromObject x = ?key
                                    then desired\<lparr>ResourceVersion := Suc (revision w)\<rparr> else x) (objects w)"
        by simp_all
      moreover have "lookup (sameKind ?k (map (\<lambda>x. if gvk x = ?k \<and> ObjectKeyFromObject x = ?key
                                    then desired\<lparr>ResourceVersion := Suc (revision w)\<rparr> else x) (objects w))) ?key
            = Some (desired\<lparr>ResourceVersion := Suc (revision w)\<rparr>)"
        by (rule lookup_sameKind_map [OF stored]) (simp_all add: ObjectKeyFromObject_def)
      ultimately show ?thesis using reqs None by simp
    qed
  qed
  show ?thesis
    using absent other found by auto
qed
theorem createOrUpdate_get_create_update_witness:
  "\<not> Empty (gvk (testGateway\<lparr>ResourceVersion := 0\<rparr>))
   \<and> ObjectMeta.Name (testGateway\<lparr>ResourceVersion := 0\<rparr>) \<noteq> []
   \<and> Namespace (testGateway\<lparr>ResourceVersion := 0\<rparr>) \<noteq> []
   \<and> fst (createOrUpdate (testWorld [] [testGateway]) (testGateway\<lparr>ResourceVersion := 0\<rparr>)) = None
   \<and> requests (snd (snd (createOrUpdate (testWorld [] [testGateway]) (testGateway\<lparr>ResourceVersion := 0\<rparr>))))
       = [Call VerbGet ''Gateway'' ''default'' ''gw1'', Call VerbUpdate ''Gateway'' ''default'' ''gw1'']
   \<and> lookup (sameKind GatewayGVK
         (objects (snd (snd (createOrUpdate (testWorld [] [testGateway]) (testGateway\<lparr>ResourceVersion := 0\<rparr>))))))
         (''default'', ''gw1'')
       = Some (testGateway\<lparr>ResourceVersion := 4\<rparr>)"
  using createOrUpdate_get_create_update
          [of "testGateway\<lparr>ResourceVersion := 0\<rparr>" "testWorld [] [testGateway]"
              "fst (createOrUpdate (testWorld [] [testGateway]) (testGateway\<lparr>ResourceVersion := 0\<rparr>))"
              "fst (snd (createOrUpdate (testWorld [] [testGateway]) (testGateway\<lparr>ResourceVersion := 0\<rparr>)))"
              "snd (snd (createOrUpdate (testWorld [] [testGateway]) (testGateway\<lparr>ResourceVersion := 0\<rparr>)))"]
  by (simp add: testGateway_def testWorld_def GatewayGVK_def Empty_def client_Get_eq lookup_def
        sameKind_def ObjectKeyFromObject_def)

text \<open>
  Claim C4, evaluated where the desired object has no namespace.  The get goes to the
  namespace \<open>default\<close>, but the create and the update are issued for the object as it
  is, with its empty namespace.  On an empty store the object is created outside
  \<open>default\<close>, and a second call does not find it and fails with \<open>AlreadyExists\<close>; when
  \<open>default\<close> holds the object, the update is sent elsewhere and fails.  The error
  messages name the namespace \<open>default\<close> all the same.
\<close>

theorem createOrUpdate_empty_namespace_evaluation:
  "fst (createOrUpdate (testWorld [] []) (testGateway\<lparr>Namespace := []\<rparr>)) = None
   \<and> requests (snd (snd (createOrUpdate (testWorld [] []) (testGateway\<lparr>Namespace := []\<rparr>))))
       = [Call VerbGet ''Gateway'' ''default'' ''gw1'', Call VerbCreate ''Gateway'' [] ''gw1'']
   \<and> map ObjectKeyFromObject
        (objects (snd (snd (createOrUpdate (testWorld [] []) (testGateway\<lparr>Namespace := []\<rparr>)))))
       = [([], ''gw1'')]
   \<and> fst (createOrUpdate (snd (snd (createOrUpdate (testWorld [] []) (testGateway\<lparr>Namespace := []\<rparr>))))
             (testGateway\<lparr>Namespace := []\<rparr>))
       = Some (Errorf ''failed to create Gateway/gw1 in namespace default'' AlreadyExists)
   \<and> fst (createOrUpdate (testWorld [] [testGateway]) (testGateway\<lparr>Namespace := []\<rparr>))
       = Some (Errorf ''failed to update Gateway/gw1 in namespace default'' NotFound)
   \<and> requests (snd (snd (createOrUpdate (testWorld [] [testGateway]) (testGateway\<lparr>Namespace := []\<rparr>))))
       = [Call VerbGet ''Gateway'' ''default'' ''gw1'', Call VerbUpdate ''Gateway'' [] ''gw1'']"
  by (simp add: createOrUpdate_def testGateway_def testWorld_def GatewayGVK_def Empty_def client_Get_eq
        client_Create_def client_Update_def lookup_def sameKind_def ObjectKeyFromObject_def
        NamespaceDefault_def issue_def Let_def)

section \<open>Facts about status conditions\<close>






lemma SetStatusCondition_types:
  "set (map Type (SetStatusCondition conditions c)) = insert (Type c) (set (map Type conditions))"
  by (induction conditions) auto

lemma SetStatusCondition_distinct:
  "distinct (map Type conditions) \<Longrightarrow> distinct (map Type (SetStatusCondition conditions c))"
proof (induction conditions)
  case Nil
  then show ?case by simp
next
  case (Cons a conditions)
  have "Type a \<notin> Type ` set (SetStatusCondition conditions c)" if "Type a \<noteq> Type c"
    using that Cons.prems SetStatusCondition_types [of conditions c] by auto
  with Cons show ?case by auto
qed



text \<open>With distinct types a condition of a type is the one \<open>FindStatusCondition\<close>
  returns.\<close>

lemma Find_member:
  "FindStatusCondition conditions t = Some c \<Longrightarrow> c \<in> set conditions \<and> Type c = t"
  by (auto simp: FindStatusCondition_def find_Some_iff)

lemma member_Find:
  assumes "distinct (map Type conditions)" and "c \<in> set conditions"
  shows "FindStatusCondition conditions (Type c) = Some c"
  using assms by (induction conditions) (auto simp: FindStatusCondition_def image_iff)

section \<open>Facts about the typed client\<close>

lemma lookup_replace:
  "lookup store (ObjectKeyFromObject x) = Some old \<Longrightarrow>
     lookup (replace x store) (ObjectKeyFromObject x) = Some x"
  by (induction store) (auto simp: lookup_def replace_def split: if_splits)

lemma lookup_replace_other:
  "key \<noteq> ObjectKeyFromObject x \<Longrightarrow> lookup (replace x store) key = lookup store key"
  by (induction store) (auto simp: lookup_def replace_def)

lemma client_StatusPatch_requests:
  "requests (snd (client_StatusPatch w original policy)) =
     requests w @ [Call VerbPatchStatus ''WAFPolicy'' (Namespace policy) (ObjectMeta.Name policy)]"
  by (simp add: client_StatusPatch_def Let_def ObjectKeyFromObject_def split: option.splits)

lemma client_StatusPatch_frame:
  "engines (snd (client_StatusPatch w original policy)) = engines w"
  "objects (snd (client_StatusPatch w original policy)) = objects w"
  "events (snd (client_StatusPatch w original policy)) = events w"
  "faults (snd (client_StatusPatch w original policy)) = faults w"
  "now (snd (client_StatusPatch w original policy)) = now w"
  by (simp_all add: client_StatusPatch_def Let_def split: option.splits)

lemma lookup_append_new:
  "lookup store (ObjectKeyFromObject x) = None \<Longrightarrow> lookup (store @ [x]) (ObjectKeyFromObject x) = Some x"
  by (induction store) (auto simp: lookup_def split: if_splits)

lemma lookup_append_other:
  "key \<noteq> ObjectKeyFromObject x \<Longrightarrow> lookup (store @ [x]) key = lookup store key"
  by (induction store) (auto simp: lookup_def)

lemma client_CreateEngine_cases:
  "client_CreateEngine w engine =
     (case faults w VerbCreate ''Engine'' of
        Some err \<Rightarrow> (Inl err, issue VerbCreate ''Engine'' (ObjectKeyFromObject engine) w)
      | None \<Rightarrow>
          (case lookup (engines w) (ObjectKeyFromObject engine) of
             Some old \<Rightarrow> (Inl AlreadyExists, issue VerbCreate ''Engine'' (ObjectKeyFromObject engine) w)
           | None \<Rightarrow>
               (Inr (engine\<lparr>ResourceVersion := Suc (revision w)\<rparr>),
                (issue VerbCreate ''Engine'' (ObjectKeyFromObject engine) w)
                  \<lparr>engines := engines w @ [engine\<lparr>ResourceVersion := Suc (revision w)\<rparr>],
                   revision := Suc (revision w)\<rparr>)))"
  by (simp add: client_CreateEngine_def Let_def split: option.splits)

lemma client_UpdateEngine_cases:
  "client_UpdateEngine w engine =
     (case faults w VerbUpdate ''Engine'' of
        Some err \<Rightarrow> (Inl err, issue VerbUpdate ''Engine'' (ObjectKeyFromObject engine) w)
      | None \<Rightarrow>
          (case lookup (engines w) (ObjectKeyFromObject engine) of
             None \<Rightarrow> (Inl NotFound, issue VerbUpdate ''Engine'' (ObjectKeyFromObject engine) w)
           | Some old \<Rightarrow>
               if ResourceVersion engine \<noteq> ResourceVersion old
               then (Inl Conflict, issue VerbUpdate ''Engine'' (ObjectKeyFromObject engine) w)
               else
                 (Inr (engine\<lparr>ResourceVersion := Suc (revision w)\<rparr>),
                  (issue VerbUpdate ''Engine'' (ObjectKeyFromObject engine) w)
                    \<lparr>engines := replace (engine\<lparr>ResourceVersion := Suc (revision w)\<rparr>) (engines w),
                     revision := Suc (revision w)\<rparr>)))"
  by (simp add: client_UpdateEngine_def Let_def split: option.splits)

lemma mutate_Inr:
  "mutate f key obj = Inr obj' \<Longrightarrow> f obj = Inr obj' \<and> ObjectKeyFromObject obj' = key"
  by (auto simp: mutate_def split: sum.splits if_splits)

text \<open>What \<open>CreateOrUpdate\<close> leaves behind: only Engine requests for the object's key
  (a get, then at most one create or update), only the Engine of that key touched, and
  on success the returned object is a result of the mutate function (up to the resource
  version the store gave it) and is what the store holds under the key.\<close>

lemma CreateOrUpdate_effect:
  assumes "CreateOrUpdate w obj f = (res, obj', w1)"
  shows "policies w1 = policies w \<and> objects w1 = objects w \<and> events w1 = events w
       \<and> now w1 = now w \<and> faults w1 = faults w
       \<and> (\<exists>rest. requests w1 = requests w @ Call VerbGet ''Engine'' (Namespace obj) (ObjectMeta.Name obj) # rest
              \<and> (rest = [] \<or> rest = [Call VerbCreate ''Engine'' (Namespace obj) (ObjectMeta.Name obj)]
                  \<or> rest = [Call VerbUpdate ''Engine'' (Namespace obj) (ObjectMeta.Name obj)]))
       \<and> (\<forall>key. key \<noteq> ObjectKeyFromObject obj \<longrightarrow> lookup (engines w1) key = lookup (engines w) key)
       \<and> (case res of
            Inl e \<Rightarrow> engines w1 = engines w
          | Inr r \<Rightarrow>
              ObjectKeyFromObject obj' = ObjectKeyFromObject obj
              \<and> lookup (engines w1) (ObjectKeyFromObject obj) = Some obj'
              \<and> (\<exists>base m rv. f base = Inr m \<and> obj' = m\<lparr>ResourceVersion := rv\<rparr>))"
proof -
  let ?key = "ObjectKeyFromObject obj"
  let ?w0 = "issue VerbGet ''Engine'' ?key w"
  have key: "?key = (Namespace obj, ObjectMeta.Name obj)"
    by (simp add: ObjectKeyFromObject_def)
  show ?thesis
  proof (cases "fst (client_Get w ''Engine'' (engines w) ?key)")
    case (Inl err)
    then have get: "client_Get w ''Engine'' (engines w) ?key = (Inl err, ?w0)"
      by (simp add: client_Get_eq)
    show ?thesis
    proof (cases "IsNotFound err")
      case False
      with get assms show ?thesis
        by (auto simp: CreateOrUpdate_def Let_def key)
    next
      case True
      show ?thesis
      proof (cases "mutate f ?key obj")
        case (Inl err')
        with get True assms show ?thesis
          by (auto simp: CreateOrUpdate_def Let_def key)
      next
        case (Inr m)
        then have fm: "f obj = Inr m" and mkey: "ObjectKeyFromObject m = ?key"
          using mutate_Inr by blast+
        have run: "(res, obj', w1) =
            (case client_CreateEngine ?w0 m of
               (Inl err', w2) \<Rightarrow> (Inl err', m, w2)
             | (Inr created, w2) \<Rightarrow> (Inr OperationResultCreated, created, w2))"
          using get True Inr assms by (simp add: CreateOrUpdate_def Let_def)
        show ?thesis
        proof (cases "faults w VerbCreate ''Engine''")
          case (Some e)
          with run show ?thesis
            by (auto simp: client_CreateEngine_cases mkey key)
        next
          case None
          show ?thesis
          proof (cases "lookup (engines w) ?key")
            case (Some old)
            with None run show ?thesis
              by (auto simp: client_CreateEngine_cases mkey key)
          next
            case absent: None
            let ?stored = "m\<lparr>ResourceVersion := Suc (revision w)\<rparr>"
            have skey: "ObjectKeyFromObject ?stored = ?key"
              using mkey by (simp add: ObjectKeyFromObject_def)
            have res: "res = Inr OperationResultCreated" "obj' = ?stored"
              and w1: "w1 = (issue VerbCreate ''Engine'' ?key ?w0)
                             \<lparr>engines := engines w @ [?stored], revision := Suc (revision w)\<rparr>"
              using run None absent by (simp_all add: client_CreateEngine_cases mkey)
            have "lookup (engines w @ [?stored]) ?key = Some ?stored"
              using lookup_append_new [of "engines w" ?stored] absent skey by simp
            moreover have "\<forall>k. k \<noteq> ?key \<longrightarrow> lookup (engines w @ [?stored]) k = lookup (engines w) k"
              using lookup_append_other [of _ ?stored "engines w"] skey by simp
            ultimately show ?thesis
              using res w1 fm skey by (auto simp: key)
          qed
        qed
      qed
    qed
  next
    case (Inr existing)
    then have get: "client_Get w ''Engine'' (engines w) ?key = (Inr existing, ?w0)"
      by (simp add: client_Get_eq)
    have stored: "lookup (engines w) ?key = Some existing"
      using Inr by (auto simp: client_Get_eq split: option.splits)
    have ekey: "ObjectKeyFromObject existing = ?key"
      using stored by (auto simp: lookup_def find_Some_iff)
    show ?thesis
    proof (cases "mutate f ?key existing")
      case (Inl err)
      with get assms show ?thesis
        by (auto simp: CreateOrUpdate_def Let_def key)
    next
      case mut: (Inr m)
      then have fm: "f existing = Inr m" and mkey: "ObjectKeyFromObject m = ?key"
        using mutate_Inr by blast+
      show ?thesis
      proof (cases "existing = m")
        case True
        then have "res = Inr OperationResultNone" "obj' = m" "w1 = ?w0"
          using get mut assms by (simp_all add: CreateOrUpdate_def Let_def)
        moreover have "\<exists>base m' rv. f base = Inr m' \<and> m = m'\<lparr>ResourceVersion := rv\<rparr>"
          using fm by (intro exI [of _ existing] exI [of _ m] exI [of _ "ResourceVersion m"]) simp
        ultimately show ?thesis
          using stored True mkey by (simp add: key)
      next
        case False
        have run: "(res, obj', w1) =
            (case client_UpdateEngine ?w0 m of
               (Inl err, w2) \<Rightarrow> (Inl err, m, w2)
             | (Inr updated, w2) \<Rightarrow> (Inr OperationResultUpdated, updated, w2))"
          using get mut False assms by (simp add: CreateOrUpdate_def Let_def)
        show ?thesis
        proof (cases "faults w VerbUpdate ''Engine''")
          case (Some e)
          with run show ?thesis
            by (auto simp: client_UpdateEngine_cases mkey key)
        next
          case None
          show ?thesis
          proof (cases "ResourceVersion m = ResourceVersion existing")
            case rv: False
            with None run stored show ?thesis
              by (auto simp: client_UpdateEngine_cases mkey key)
          next
            case rv: True
            let ?stored = "m\<lparr>ResourceVersion := Suc (revision w)\<rparr>"
            have skey: "ObjectKeyFromObject ?stored = ?key"
              using mkey by (simp add: ObjectKeyFromObject_def)
            have res: "res = Inr OperationResultUpdated" "obj' = ?stored"
              and w1: "w1 = (issue VerbUpdate ''Engine'' ?key ?w0)
                             \<lparr>engines := replace ?stored (engines w), revision := Suc (revision w)\<rparr>"
              using run None stored rv by (simp_all add: client_UpdateEngine_cases mkey)
            have "lookup (replace ?stored (engines w)) ?key = Some ?stored"
              using lookup_replace [of "engines w" ?stored existing] stored skey by simp
            moreover have "\<forall>k. k \<noteq> ?key \<longrightarrow> lookup (replace ?stored (engines w)) k = lookup (engines w) k"
              using lookup_replace_other [of _ ?stored "engines w"] skey by simp
            ultimately show ?thesis
              using res w1 fm skey by (auto simp: key)
          qed
        qed
      qed
    qed
  qed
qed

section \<open>The status-writing operations\<close>


section \<open>Accepted and Programmed\<close>


lemma quadruple_eq: "x = (fst x, fst (snd x), fst (snd (snd x)), snd (snd (snd x)))"
  by simp



section \<open>The derived Engine\<close>

text \<open>What \<open>ensureEngine\<close> adds to \<open>CreateOrUpdate\<close>, whatever the caller holds: one
  status patch, no change to the Engines, and the Engine error returned.\<close>

lemma ensureEngine_frame:
  assumes run: "ensureEngine r w policy workloadLabels = (res, err, policy', w')"
    and cu: "CreateOrUpdate w (ensureEngine_engine policy) (ensureEngine_mutate r policy workloadLabels)
               = (cres, engine, w1)"
  shows "requests w' = requests w1 @ [Call VerbPatchStatus ''WAFPolicy'' (Namespace policy) (ObjectMeta.Name policy)]"
    and "engines w' = engines w1"
    and "err = None \<Longrightarrow> \<exists>result. cres = Inr result"
proof -
  have "requests w' = requests w1 @ [Call VerbPatchStatus ''WAFPolicy'' (Namespace policy) (ObjectMeta.Name policy)]
      \<and> engines w' = engines w1 \<and> (err = None \<longrightarrow> (\<exists>result. cres = Inr result))"
  proof (cases cres)
    case (Inl e)
    let ?msg = "''Failed to create/update Engine: '' @ Error e"
    let ?w2 = "Recorder_Event w1 policy ''Warning'' ''EngineSyncFailed'' ?msg"
    let ?p1 = "policy\<lparr>Conditions := setConditionFalse (Conditions policy) (Generation policy) (now w1)
                   ''Programmed'' ''EngineSyncFailed'' ?msg\<rparr>"
    let ?patch = "client_StatusPatch ?w2 policy ?p1"
    have run': "(res, err, policy', w') =
        (case ?patch of (Inl e', w3) \<Rightarrow> (Result0, Some e, ?p1, w3)
                      | (Inr answered, w3) \<Rightarrow> (Result0, Some e, answered, w3))"
      unfolding run [symmetric]
      using cu Inl by (simp add: ensureEngine_def Let_def split: prod.splits sum.splits)
    have "w' = snd ?patch" and "err = Some e"
      using run' by (cases ?patch; auto split: sum.splits)+
    then show ?thesis
      by (simp add: client_StatusPatch_requests client_StatusPatch_frame)
  next
    case (Inr result)
    let ?p2 = "policy\<lparr>Conditions := SetStatusCondition
                   (SetStatusCondition (Conditions policy)
                      \<lparr>Type = ''Accepted'', Status = ConditionTrue, ObservedGeneration = Generation policy,
                       LastTransitionTime = now w1, Reason = ''Accepted'',
                       Message = ''WAFPolicy is accepted''\<rparr>)
                   \<lparr>Type = ''Programmed'', Status = ConditionTrue, ObservedGeneration = Generation policy,
                    LastTransitionTime = now w1, Reason = ''Programmed'',
                    Message = ''Engine '' @ quote (ObjectMeta.Name engine) @ '' ''
                              @ OperationResult_String result\<rparr>\<rparr>"
    let ?patch = "client_StatusPatch w1 policy ?p2"
    have run': "(res, err, policy', w') =
        (case ?patch of
           (Inl e', w2) \<Rightarrow> (Result0, Some e', ?p2, w2)
         | (Inr answered, w2) \<Rightarrow>
             (Result0, None, answered,
              Recorder_Event w2 answered ''Normal'' ''Programmed''
                (''Engine '' @ Namespace engine @ ''/'' @ ObjectMeta.Name engine @ '' ''
                 @ OperationResult_String result)))"
      unfolding run [symmetric]
      using cu Inr by (simp add: ensureEngine_def Let_def split: prod.splits sum.splits)
    have "requests w' = requests (snd ?patch)" and "engines w' = engines (snd ?patch)"
      using run' by (cases ?patch; auto split: sum.splits)+
    then show ?thesis
      using Inr by (simp add: client_StatusPatch_requests client_StatusPatch_frame)
  qed
  then show "requests w' = requests w1 @ [Call VerbPatchStatus ''WAFPolicy'' (Namespace policy) (ObjectMeta.Name policy)]"
    and "engines w' = engines w1"
    and "err = None \<Longrightarrow> \<exists>result. cres = Inr result"
    by blast+
qed

text \<open>
  Claim C1.  In every run of \<open>ensureEngine\<close> the Engine requests (a get, then at most
  one create or update) all name the policy's namespace and the name \<open>wafpolicy-\<close>
  followed by the policy's name; no Engine under another key is touched; and when the
  run returns no error the store holds, under that key, an Engine with that name in
  that namespace.
\<close>

theorem ensureEngine_engine_name:
  assumes "ensureEngine r w policy workloadLabels = (res, err, policy', w')"
  shows "(\<exists>rest. requests w' =
            requests w @ Call VerbGet ''Engine'' (Namespace policy) (''wafpolicy-'' @ ObjectMeta.Name policy)
              # rest @ [Call VerbPatchStatus ''WAFPolicy'' (Namespace policy) (ObjectMeta.Name policy)]
            \<and> (rest = []
                \<or> rest = [Call VerbCreate ''Engine'' (Namespace policy) (''wafpolicy-'' @ ObjectMeta.Name policy)]
                \<or> rest = [Call VerbUpdate ''Engine'' (Namespace policy) (''wafpolicy-'' @ ObjectMeta.Name policy)]))
       \<and> (\<forall>key. key \<noteq> (Namespace policy, ''wafpolicy-'' @ ObjectMeta.Name policy) \<longrightarrow>
             lookup (engines w') key = lookup (engines w) key)
       \<and> (err = None \<longrightarrow>
            (\<exists>engine. lookup (engines w') (Namespace policy, ''wafpolicy-'' @ ObjectMeta.Name policy) = Some engine
               \<and> ObjectMeta.Name engine = ''wafpolicy-'' @ ObjectMeta.Name policy
               \<and> Namespace engine = Namespace policy))"
proof -
  obtain cres engine w1 where
    cu: "CreateOrUpdate w (ensureEngine_engine policy) (ensureEngine_mutate r policy workloadLabels)
          = (cres, engine, w1)"
    by (metis prod_cases3)
  note eff = CreateOrUpdate_effect [OF cu]
  note frame = ensureEngine_frame [OF assms cu]
  have name: "ObjectMeta.Name (ensureEngine_engine policy) = ''wafpolicy-'' @ ObjectMeta.Name policy"
    and ns: "Namespace (ensureEngine_engine policy) = Namespace policy"
    by (simp_all add: ensureEngine_engine_def EngineNamePrefix_def)
  have key: "ObjectKeyFromObject (ensureEngine_engine policy)
      = (Namespace policy, ''wafpolicy-'' @ ObjectMeta.Name policy)"
    using name ns by (simp add: ObjectKeyFromObject_def)
  have reqs: "\<exists>rest. requests w' =
            requests w @ Call VerbGet ''Engine'' (Namespace policy) (''wafpolicy-'' @ ObjectMeta.Name policy)
              # rest @ [Call VerbPatchStatus ''WAFPolicy'' (Namespace policy) (ObjectMeta.Name policy)]
            \<and> (rest = []
                \<or> rest = [Call VerbCreate ''Engine'' (Namespace policy) (''wafpolicy-'' @ ObjectMeta.Name policy)]
                \<or> rest = [Call VerbUpdate ''Engine'' (Namespace policy) (''wafpolicy-'' @ ObjectMeta.Name policy)])"
    using eff frame(1) unfolding name ns by auto
  have others: "\<forall>key. key \<noteq> (Namespace policy, ''wafpolicy-'' @ ObjectMeta.Name policy) \<longrightarrow>
             lookup (engines w') key = lookup (engines w) key"
    using eff frame(2) unfolding key by simp
  have stored: "\<exists>engine. lookup (engines w') (Namespace policy, ''wafpolicy-'' @ ObjectMeta.Name policy) = Some engine
               \<and> ObjectMeta.Name engine = ''wafpolicy-'' @ ObjectMeta.Name policy
               \<and> Namespace engine = Namespace policy"
    if none: "err = None"
  proof -
    obtain result where "cres = Inr result"
      using frame(3) none by blast
    then have "ObjectKeyFromObject engine = (Namespace policy, ''wafpolicy-'' @ ObjectMeta.Name policy)"
      and "lookup (engines w1) (Namespace policy, ''wafpolicy-'' @ ObjectMeta.Name policy) = Some engine"
      using eff unfolding key by simp_all
    then show ?thesis
      using frame(2) by (auto simp: ObjectKeyFromObject_def)
  qed
  show ?thesis
    using reqs others stored by blast
qed

theorem ensureEngine_engine_name_witness:
  "map ObjectKeyFromObject (engines (snd (snd (snd (ensureEngine testReconciler
        (testWorld [testPolicy ''Gateway'' ''gw1''] [testGateway]) (testPolicy ''Gateway'' ''gw1'') testLabels)))))
     = [(''default'', ''wafpolicy-p1'')]
   \<and> requests (snd (snd (snd (ensureEngine testReconciler
        (testWorld [testPolicy ''Gateway'' ''gw1''] [testGateway]) (testPolicy ''Gateway'' ''gw1'') testLabels))))
     = [Call VerbGet ''Engine'' ''default'' ''wafpolicy-p1'', Call VerbCreate ''Engine'' ''default'' ''wafpolicy-p1'',
        Call VerbPatchStatus ''WAFPolicy'' ''default'' ''p1'']
   \<and> (\<exists>engine. lookup (engines (snd (snd (snd (ensureEngine testReconciler
        (testWorld [testPolicy ''Gateway'' ''gw1''] [testGateway]) (testPolicy ''Gateway'' ''gw1'') testLabels)))))
          (Namespace (testPolicy ''Gateway'' ''gw1''), ''wafpolicy-'' @ ObjectMeta.Name (testPolicy ''Gateway'' ''gw1''))
          = Some engine
        \<and> ObjectMeta.Name engine = ''wafpolicy-'' @ ObjectMeta.Name (testPolicy ''Gateway'' ''gw1'')
        \<and> Namespace engine = Namespace (testPolicy ''Gateway'' ''gw1''))"
  (is "?keys \<and> ?reqs \<and> ?stored")
proof -
  let ?run = "ensureEngine testReconciler (testWorld [testPolicy ''Gateway'' ''gw1''] [testGateway])
                (testPolicy ''Gateway'' ''gw1'') testLabels"
  have keys: ?keys and reqs: ?reqs
    by code_simp+
  have ok: "fst (snd ?run) = None"
    by code_simp
  note inst = ensureEngine_engine_name [OF quadruple_eq [of ?run]]
  from inst ok have ?stored
    by blast
  with keys reqs show ?thesis by blast
qed

section \<open>Target resolution\<close>











section \<open>Deletion\<close>



section \<open>The Accepted condition by outcome\<close>






section \<open>Further properties\<close>

text \<open>
  The identity checks of \<open>createOrUpdate\<close>: an empty kind, or an empty name, is
  answered with an error before any request is issued, and the store and the desired
  object are left as they were; with kind and name set but no namespace, the first
  request is the get in the namespace \<open>default\<close>.
\<close>

theorem createOrUpdate_missing_identity:
  "(Empty (gvk desired) \<longrightarrow>
      createOrUpdate w desired = (Some (New ''desired object must have GroupVersionKind set''), desired, w))
   \<and> (\<not> Empty (gvk desired) \<and> ObjectMeta.Name desired = [] \<longrightarrow>
      createOrUpdate w desired = (Some (New ''desired object must have a name set''), desired, w))
   \<and> (\<not> Empty (gvk desired) \<and> ObjectMeta.Name desired \<noteq> [] \<and> Namespace desired = [] \<longrightarrow>
      (\<exists>rest. requests (snd (snd (createOrUpdate w desired))) =
         requests w @ Call VerbGet (GroupVersionKind.Kind (gvk desired)) ''default'' (ObjectMeta.Name desired) # rest))"
proof -
  have "\<exists>rest. requests (snd (snd (createOrUpdate w desired))) =
         requests w @ Call VerbGet (GroupVersionKind.Kind (gvk desired)) ''default'' (ObjectMeta.Name desired) # rest"
    if checks: "\<not> Empty (gvk desired)" "ObjectMeta.Name desired \<noteq> []" and ns: "Namespace desired = []"
  proof -
    let ?K = "GroupVersionKind.Kind (gvk desired)"
    let ?key = "(''default'', ObjectMeta.Name desired)"
    let ?w1 = "issue VerbGet ?K ?key w"
    let ?get = "fst (client_Get w ?K (sameKind (gvk desired) (objects w)) ?key)"
    note unfolded = createOrUpdate_after_checks [OF checks, of w, unfolded Let_def, simplified ns NamespaceDefault_def if_True]
    have "snd (snd (createOrUpdate w desired)) = ?w1
        \<or> snd (snd (createOrUpdate w desired)) = snd (client_Create ?w1 desired)
        \<or> (\<exists>d. snd (snd (createOrUpdate w desired)) = snd (client_Update ?w1 d))"
    proof (cases ?get)
      case (Inl e)
      then show ?thesis
        unfolding unfolded by (cases "client_Create ?w1 desired") (auto split: sum.splits)
    next
      case (Inr resource)
      let ?d = "desired\<lparr>ResourceVersion := ResourceVersion resource\<rparr>"
      have "snd (snd (createOrUpdate w desired)) = snd (client_Update ?w1 ?d)"
        unfolding unfolded using Inr by (cases "client_Update ?w1 ?d") (auto split: sum.splits)
      then show ?thesis
        by blast
    qed
    then show ?thesis
      by (auto simp: client_Create_requests client_Update_requests)
  qed
  then show ?thesis
    by (simp add: createOrUpdate_def)
qed

theorem createOrUpdate_missing_identity_witness:
  "Empty (gvk (testGateway\<lparr>gvk := \<lparr>GroupVersionKind.Group = [], Version = [], GroupVersionKind.Kind = []\<rparr>\<rparr>))
   \<and> fst (createOrUpdate (testWorld [] [])
            (testGateway\<lparr>gvk := \<lparr>GroupVersionKind.Group = [], Version = [], GroupVersionKind.Kind = []\<rparr>\<rparr>))
       = Some (New ''desired object must have GroupVersionKind set'')
   \<and> \<not> Empty (gvk (testGateway\<lparr>ObjectMeta.Name := []\<rparr>)) \<and> ObjectMeta.Name (testGateway\<lparr>ObjectMeta.Name := []\<rparr>) = []
   \<and> createOrUpdate (testWorld [] []) (testGateway\<lparr>ObjectMeta.Name := []\<rparr>)
       = (Some (New ''desired object must have a name set''), testGateway\<lparr>ObjectMeta.Name := []\<rparr>, testWorld [] [])"
  (is "?nokind \<and> ?kinderror \<and> ?kind \<and> ?noname \<and> ?nameerror")
proof -
  have nokind: ?nokind and kind: ?kind and noname: ?noname
    by code_simp+
  note inst1 = createOrUpdate_missing_identity
                 [of "testGateway\<lparr>gvk := \<lparr>GroupVersionKind.Group = [], Version = [], GroupVersionKind.Kind = []\<rparr>\<rparr>"
                     "testWorld [] []"]
  note inst2 = createOrUpdate_missing_identity [of "testGateway\<lparr>ObjectMeta.Name := []\<rparr>" "testWorld [] []"]
  from inst1 nokind have ?kinderror
    by simp
  moreover from inst2 kind noname have ?nameerror
    by blast
  ultimately show ?thesis
    using nokind kind noname by blast
qed

text \<open>
  A pass for a policy that is no longer stored: the read reports not-found, the pass
  returns the empty result and no error, and nothing but the read is issued.
\<close>

theorem Reconcile_policy_gone:
  assumes "faults w VerbGet ''WAFPolicy'' = None"
    and "lookup (policies w) req = None"
  shows "Reconcile r w req = (Result0, None, issue VerbGet ''WAFPolicy'' req w)"
  using assms by (simp add: Reconcile_def client_Get_eq)

theorem Reconcile_policy_gone_witness:
  "faults (testWorld [] [testGateway]) VerbGet ''WAFPolicy'' = None
   \<and> lookup (policies (testWorld [] [testGateway])) (''default'', ''non-existent'') = None
   \<and> Reconcile testReconciler (testWorld [] [testGateway]) (''default'', ''non-existent'')
       = (Result0, None, issue VerbGet ''WAFPolicy'' (''default'', ''non-existent'') (testWorld [] [testGateway]))"
  (is "?nofault \<and> ?gone \<and> ?noop")
proof -
  have nofault: ?nofault and gone: ?gone
    by code_simp+
  from Reconcile_policy_gone [OF nofault gone] have ?noop .
  with nofault gone show ?thesis
    by blast
qed

end
